theory Spec2Isabelle
  imports Complex_Main "HOL-Library.Word" "HOL-Library.Sublist"
begin

chapter \<open>The interview toolkit: workflow state machine and interview turn loop\<close>

section \<open>JavaScript strings\<close>

text \<open>
  A JavaScript string is a sequence of UTF-16 code units. The literals of the source that
  are not ASCII are written out as their code units; \<open>ascii\<close> embeds an ASCII literal.
\<close>

type_synonym js_string = "16 word list"

definition ascii :: "string \<Rightarrow> js_string" where
  "ascii s = map (\<lambda>c. of_nat (of_char c)) s"

text \<open>
  \<open>String.prototype.trim\<close> strips the WhiteSpace and LineTerminator code points of
  ECMAScript from both ends.
\<close>

definition isWhiteSpace :: "16 word \<Rightarrow> bool" where
  "isWhiteSpace c =
     (c \<in> {0x9, 0xA, 0xB, 0xC, 0xD, 0x20, 0xA0, 0x1680, 0x2028, 0x2029, 0x202F, 0x205F,
            0x3000, 0xFEFF}
      \<or> (0x2000 \<le> c \<and> c \<le> 0x200A))"

definition trim :: "js_string \<Rightarrow> js_string" where
  "trim s = rev (dropWhile isWhiteSpace (rev (dropWhile isWhiteSpace s)))"

text \<open>\<open>s.includes(pat)\<close>: \<open>pat\<close> occurs in \<open>s\<close> as a contiguous run.\<close>

fun js_includes :: "js_string \<Rightarrow> js_string \<Rightarrow> bool" where
  "js_includes [] pat = (pat = [])"
| "js_includes (c # cs) pat = (prefix pat (c # cs) \<or> js_includes cs pat)"

text \<open>\<open>text || dflt\<close> on an optional string: \<open>undefined\<close> and \<open>""\<close> are falsy.\<close>

definition or_else :: "js_string option \<Rightarrow> js_string \<Rightarrow> js_string" where
  "or_else t dflt = (case t of None \<Rightarrow> dflt | Some s \<Rightarrow> if s = [] then dflt else s)"


section \<open>services/geminiService: the retry helper\<close>

text \<open>
  A value thrown by the backend client: an error object with an optional numeric
  \<open>status\<close>, an optional numeric \<open>code\<close> and an optional \<open>message\<close>.
\<close>

record js_error =
  status :: "nat option"
  code :: "nat option"
  message :: "js_string option"

text \<open>
  \<open>error?.status === 429 || error?.code === 429 || error?.message?.includes('429')
  || error?.message?.includes('quota')\<close>
\<close>

definition isRateLimit :: "js_error \<Rightarrow> bool" where
  "isRateLimit e =
     (status e = Some 429 \<or> code e = Some 429
      \<or> (case message e of None \<Rightarrow> False | Some m \<Rightarrow> js_includes m (ascii ''429''))
      \<or> (case message e of None \<Rightarrow> False | Some m \<Rightarrow> js_includes m (ascii ''quota'')))"

text \<open>
  \<open>runWithRetry(operation, retries = 5, delay = 4000)\<close>. The operation is an effectful
  thunk: a transformer of the environment \<open>'s\<close> that returns what the call resolved to
  (\<open>Inr\<close>) or threw (\<open>Inl\<close>). The result carries the list of the \<open>setTimeout\<close> delays
  waited for, in milliseconds, and the environment left behind.
\<close>

fun runWithRetry ::
  "('s \<Rightarrow> (js_error + 'a) \<times> 's) \<Rightarrow> nat \<Rightarrow> nat \<Rightarrow> 's \<Rightarrow> (js_error + 'a) \<times> nat list \<times> 's"
where
  "runWithRetry operation retries delay s =
     (case operation s of
        (Inr v, s') \<Rightarrow> (Inr v, [], s')
      | (Inl e, s') \<Rightarrow>
          if isRateLimit e \<and> retries > 0 then
            (case runWithRetry operation (retries - 1) (delay * 2) s' of
               (r, waits, s'') \<Rightarrow> (r, delay # waits, s''))
          else (Inl e, [], s'))"

declare runWithRetry.simps [simp del]

text \<open>
  The environment after \<open>k\<close> calls of the operation, and what the call number \<open>k\<close>
  (counted from 0) resolves to: the vocabulary for speaking of the attempts made.
\<close>

primrec env_after :: "('s \<Rightarrow> 'r \<times> 's) \<Rightarrow> nat \<Rightarrow> 's \<Rightarrow> 's" where
  "env_after operation 0 s = s"
| "env_after operation (Suc k) s = env_after operation k (snd (operation s))"

definition attempt :: "('s \<Rightarrow> 'r \<times> 's) \<Rightarrow> nat \<Rightarrow> 's \<Rightarrow> 'r" where
  "attempt operation k s = fst (operation (env_after operation k s))"


text \<open>Two backends to run the helper on: one that is always rate limited, one that
  answers \<open>7\<close> on the third call. The environment counts the calls.\<close>

definition error429 :: js_error where
  "error429 = \<lparr>status = Some 429, code = None, message = None\<rparr>"

definition always429 :: "nat \<Rightarrow> (js_error + nat) \<times> nat" where
  "always429 calls = (Inl error429, Suc calls)"

definition third_time_lucky :: "nat \<Rightarrow> (js_error + nat) \<times> nat" where
  "third_time_lucky calls = (if calls < 2 then Inl error429 else Inr 7, Suc calls)"


section \<open>types.ts: the data model\<close>

datatype AppStep =
  SETUP | CLARIFYING | RESEARCHING | PREVIEW | GUIDE_INPUT | GUIDE_REVIEW | MODE_SELECTION
  | INTERVIEW | SUMMARY

datatype InterviewMode = MANUAL | AUTO

datatype MaterialType = text_material | file_material

record ReferenceMaterial =
  id_m :: js_string
  type_m :: MaterialType
  name_m :: js_string
  content :: js_string
  mimeType :: "js_string option"

record ResearchConfig =
  industry :: js_string
  targetAudience :: js_string
  clarifications :: "js_string list option"
  objectives :: "js_string option"
  userQuestions :: "js_string option"
  referenceMaterials :: "ReferenceMaterial list option"

record ClarifyingQuestion =
  question :: js_string
  options :: "js_string list"

text \<open>
  A value of \<open>JSON.parse\<close>. Numbers are rationals; an object is the list of its
  properties.
\<close>

datatype json =
  JNull | JBool bool | JNum rat | JStr js_string | JArr "json list"
  | JObj "(js_string \<times> json) list"

text \<open>
  \<open>scores\<close> is declared as a \<open>PersonaDimensionScores\<close> (four numbers). The profile holds
  the object that \<open>generatePersonaProfile\<close> puts there, which is a value parsed from the
  backend's text, so the field is a \<open>json\<close>.
\<close>

record PersonaProfile =
  rawMarkdown :: js_string
  name :: js_string
  summary_p :: js_string
  imageUrl :: "js_string option"
  scores :: "json option"

datatype Role = User | Model

record ChatMessage =
  role :: Role
  "text" :: js_string
  timestamp :: nat
  isAiInterviewer :: "bool option"

record GroundingSource =
  uri :: js_string
  title :: js_string

record InterviewSummary =
  keyInsights :: js_string
  painPoints :: js_string
  wantsNeeds :: js_string
  verdict :: js_string


section \<open>services/geminiService: the collaborators\<close>

text \<open>
  What the service functions read of a \<open>GenerateContentResponse\<close>: \<open>response.text\<close>; the
  \<open>web\<close> entry of each grounding chunk of the first candidate; the \<open>inlineData.data\<close> of
  each content part of the first candidate. The prompts are not modelled: a call of
  \<open>ai.models.generateContent\<close> is the operation handed to \<open>runWithRetry\<close>.
\<close>

record GenerateContentResponse =
  response_text :: "js_string option"
  groundingChunks :: "GroundingSource option list option"
  inlineData :: "js_string option list option"

type_synonym 's backend = "'s \<Rightarrow> (js_error + GenerateContentResponse) \<times> 's"

text \<open>Reading a property: \<open>undefined\<close> on anything but \<open>null\<close>, where it throws.\<close>

definition TypeError :: js_error where
  "TypeError = \<lparr>status = None, code = None, message = Some (ascii ''TypeError'')\<rparr>"

fun get_prop :: "json \<Rightarrow> js_string \<Rightarrow> js_error + json option" where
  "get_prop JNull k = Inl TypeError"
| "get_prop (JObj props) k = Inr (map_of props k)"
| "get_prop v k = Inr None"

fun truthy :: "json \<Rightarrow> bool" where
  "truthy JNull = False"
| "truthy (JBool b) = b"
| "truthy (JNum n) = (n \<noteq> 0)"
| "truthy (JStr s) = (s \<noteq> [])"
| "truthy v = True"

text \<open>\<open>v || dflt\<close> on a property that was read.\<close>

definition json_or :: "json option \<Rightarrow> json \<Rightarrow> json" where
  "json_or v dflt = (case v of None \<Rightarrow> dflt | Some j \<Rightarrow> if truthy j then j else dflt)"

definition INTERVIEW_COMPLETE :: js_string where
  "INTERVIEW_COMPLETE = ascii ''INTERVIEW_COMPLETE''"

text \<open>
  \<open>getAIInterviewerNextQuestion(history, guide, profile)\<close>: \<open>Inr None\<close> is the returned
  \<open>null\<close>, the sentinel for a complete interview. The retry helper runs with its defaults.
\<close>

definition getAIInterviewerNextQuestion ::
  "'s backend \<Rightarrow> 's \<Rightarrow> (js_error + js_string option) \<times> nat list \<times> 's"
where
  "getAIInterviewerNextQuestion operation s =
     (case runWithRetry operation 5 4000 s of
        (Inl e, waits, s') \<Rightarrow> (Inl e, waits, s')
      | (Inr response, waits, s') \<Rightarrow>
          (let t = map_option trim (response_text response) in
           if (case t of None \<Rightarrow> False | Some x \<Rightarrow> js_includes x INTERVIEW_COMPLETE)
           then (Inr None, waits, s')
           else (Inr (case t of None \<Rightarrow> None | Some x \<Rightarrow> if x = [] then None else Some x),
                 waits, s')))"

text \<open>
  The three questions \<open>generateDiscussionGuide\<close> falls back to, in Chinese: "Please
  introduce yourself.", "What product do you use at present?", "What is your greatest
  pain point?".
\<close>

definition fallback_guide :: "js_string list" where
  "fallback_guide =
     [[0x8BF7, 0x4ECB, 0x7ECD, 0x4E00, 0x4E0B, 0x60A8, 0x81EA, 0x5DF1, 0x3002],
      [0x60A8, 0x76EE, 0x524D, 0x4F7F, 0x7528, 0x4EC0, 0x4E48, 0x4EA7, 0x54C1, 0xFF1F],
      [0x60A8, 0x6700, 0x5927, 0x7684, 0x75DB, 0x70B9, 0x662F, 0x4EC0, 0x4E48, 0xFF1F]]"

text \<open>
  \<open>generateDiscussionGuide\<close>. The first parameter stands for
  \<open>JSON.parse(response.text || "{}").questions\<close> on a response that keeps to the response
  schema (an object whose \<open>questions\<close> is an array of strings): \<open>None\<close> when the parse
  or the read throws, \<open>Some None\<close> when the property is missing, \<open>Some (Some qs)\<close>
  otherwise. Whatever is thrown inside the \<open>try\<close> is caught and answered with the
  fallback guide, so the function never throws.
\<close>

definition generateDiscussionGuide ::
  "(js_string \<Rightarrow> js_string list option option) \<Rightarrow> 's backend \<Rightarrow> 's
   \<Rightarrow> js_string list \<times> nat list \<times> 's"
where
  "generateDiscussionGuide parse_questions operation s =
     (case runWithRetry operation 5 4000 s of
        (Inl e, waits, s') \<Rightarrow> (fallback_guide, waits, s')
      | (Inr response, waits, s') \<Rightarrow>
          (case parse_questions (or_else (response_text response) (ascii ''{}'')) of
             None \<Rightarrow> (fallback_guide, waits, s')
           | Some None \<Rightarrow> ([], waits, s')
           | Some (Some qs) \<Rightarrow> (qs, waits, s')))"

text \<open>
  The defaults of \<open>generatePersonaProfile\<close>: the markdown \<open># \<close> followed by the
  Chinese for "generation failed", the name "consumer" in Chinese, and a score of 3 on
  each dimension.
\<close>

definition default_markdown :: js_string where
  "default_markdown = [0x23, 0x20, 0x751F, 0x6210, 0x5931, 0x8D25]"

definition default_name :: js_string where
  "default_name = [0x6D88, 0x8D39, 0x8005]"

definition default_scores :: json where
  "default_scores =
     JObj [(ascii ''demographics'', JNum 3), (ascii ''psychographics'', JNum 3),
           (ascii ''behaviors'', JNum 3), (ascii ''needs'', JNum 3)]"

text \<open>
  \<open>generatePersonaProfile\<close>, from the text call on. The library is a parameter:
  \<open>JSON_parse\<close> (\<open>None\<close> when it throws), \<open>match_fence\<close> for the capture group of the
  fenced-json pattern and \<open>match_heading\<close> for the capture group of the first-level-heading
  pattern (\<open>None\<close> when the pattern does not match). Reading a property of \<open>null\<close> and
  calling \<open>match\<close> on a value that is not a string throw a TypeError, which the outer
  \<open>catch\<close> rethrows. A failure of the image call is swallowed.
\<close>

definition json_string_of ::
  "(js_string \<Rightarrow> js_string option) \<Rightarrow> GenerateContentResponse \<Rightarrow> js_string"
where
  "json_string_of match_fence response =
     (let jsonString = or_else (response_text response) (ascii ''{}'')
      in case match_fence jsonString of Some g \<Rightarrow> g | None \<Rightarrow> jsonString)"

definition first_image :: "GenerateContentResponse \<Rightarrow> js_string option" where
  "first_image imageResponse =
     (case inlineData imageResponse of
        None \<Rightarrow> None
      | Some parts \<Rightarrow>
          (case filter (\<lambda>d. d \<noteq> None \<and> d \<noteq> Some []) parts of [] \<Rightarrow> None | d # _ \<Rightarrow> d))"

definition generatePersonaProfile ::
  "(js_string \<Rightarrow> json option) \<Rightarrow> (js_string \<Rightarrow> js_string option)
   \<Rightarrow> (js_string \<Rightarrow> js_string option) \<Rightarrow> 's backend \<Rightarrow> 's backend \<Rightarrow> 's
   \<Rightarrow> (js_error + PersonaProfile \<times> GroundingSource list) \<times> nat list \<times> 's"
where
  "generatePersonaProfile JSON_parse match_fence match_heading text_call image_call s =
     (case runWithRetry text_call 5 5000 s of
        (Inl e, waits, s1) \<Rightarrow> (Inl e, waits, s1)
      | (Inr response, waits, s1) \<Rightarrow>
          (let result = (case JSON_parse (json_string_of match_fence response) of
                           Some j \<Rightarrow> j
                         | None \<Rightarrow>
                             JObj [(ascii ''markdownProfile'',
                                     JStr (or_else (response_text response) default_markdown)),
                                   (ascii ''scores'', default_scores)])
           in case get_prop result (ascii ''markdownProfile'') of
                Inl e \<Rightarrow> (Inl e, waits, s1)
              | Inr mp \<Rightarrow>
                  (case get_prop result (ascii ''scores'') of
                     Inl e \<Rightarrow> (Inl e, waits, s1)
                   | Inr sc \<Rightarrow>
                       (case json_or mp (JStr default_markdown) of
                          JStr markdown \<Rightarrow>
                            (let chunks = (case groundingChunks response of
                                             None \<Rightarrow> [] | Some cs \<Rightarrow> cs);
                                 srcs = List.map_filter (\<lambda>web. web) chunks;
                                 nm = (case match_heading markdown of
                                         Some g \<Rightarrow> trim g | None \<Rightarrow> default_name);
                                 summ = take 200 markdown @ ascii ''...''
                             in case runWithRetry image_call 2 5000 s1 of
                                  (img, waits2, s2) \<Rightarrow>
                                    (Inr (\<lparr>rawMarkdown = markdown, name = nm, summary_p = summ,
                                            imageUrl = (case img of
                                                          Inl e \<Rightarrow> None
                                                        | Inr r \<Rightarrow> first_image r),
                                            scores = Some (json_or sc default_scores)\<rparr>,
                                          srcs),
                                     waits @ waits2, s2))
                        | _ \<Rightarrow> (Inl TypeError, waits, s1)))))"

text \<open>
  The claim about a score: an integer from 0 to 5 under the given key of the scores
  object.
\<close>

definition score_in_range :: "json \<Rightarrow> string \<Rightarrow> bool" where
  "score_in_range sc k =
     (case get_prop sc (ascii k) of
        Inr (Some (JNum n)) \<Rightarrow> n \<in> \<int> \<and> 0 \<le> n \<and> n \<le> 5
      | _ \<Rightarrow> False)"

definition scores_in_range :: "json \<Rightarrow> bool" where
  "scores_in_range sc =
     (score_in_range sc ''demographics'' \<and> score_in_range sc ''psychographics''
      \<and> score_in_range sc ''behaviors'' \<and> score_in_range sc ''needs'')"


section \<open>App: the workflow state machine\<close>

text \<open>The chat object of the backend client is a handle.\<close>

datatype Chat = Chat nat

text \<open>The state variables of \<open>App\<close>, with the initial values of their \<open>useState\<close>.\<close>

record app_state =
  step :: AppStep
  config :: "ResearchConfig option"
  clarificationQuestions :: "ClarifyingQuestion list"
  persona :: "PersonaProfile option"
  sources :: "GroundingSource list"
  discussionGuide :: "js_string list"
  interviewMode :: InterviewMode
  chatSession :: "Chat option"
  chatHistory :: "ChatMessage list"
  summary :: "InterviewSummary option"
  error :: "js_string option"
  isLoadingGuide :: bool

definition initial_app :: app_state where
  "initial_app =
     \<lparr>step = SETUP, config = None, clarificationQuestions = [], persona = None, sources = [],
      discussionGuide = [], interviewMode = MANUAL, chatSession = None, chatHistory = [],
      summary = None, error = None, isLoadingGuide = False\<rparr>"

text \<open>
  The messages the handlers put into \<open>error\<close>, in Chinese: "Error while analysing the
  requirements, please retry.", "Generating the persona failed, please retry.",
  "Generating the guide failed", "Cannot initialise the interview session.", "Generating
  the summary report failed.".
\<close>

definition error_analyze :: js_string where
  "error_analyze =
     [0x5206, 0x6790, 0x9700, 0x6C42, 0x65F6, 0x51FA, 0x9519, 0xFF0C, 0x8BF7, 0x91CD, 0x8BD5,
      0x3002]"

definition error_persona :: js_string where
  "error_persona =
     [0x751F, 0x6210, 0x753B, 0x50CF, 0x5931, 0x8D25, 0xFF0C, 0x8BF7, 0x91CD, 0x8BD5, 0x3002]"

definition error_guide :: js_string where
  "error_guide = [0x751F, 0x6210, 0x63D0, 0x7EB2, 0x5931, 0x8D25]"

definition error_session :: js_string where
  "error_session =
     [0x65E0, 0x6CD5, 0x521D, 0x59CB, 0x5316, 0x8BBF, 0x8C08, 0x4F1A, 0x8BDD, 0x3002]"

definition error_summary :: js_string where
  "error_summary = [0x751F, 0x6210, 0x603B, 0x7ED3, 0x62A5, 0x544A, 0x5931, 0x8D25, 0x3002]"

text \<open>
  A handler is given what each collaborator call it awaits resolves to (\<open>Inr\<close>) or throws
  (\<open>Inl\<close>), and returns the state it leaves with the trace of what it did that can be
  seen from outside: the \<open>setStep\<close> calls and the collaborator calls, in order.
\<close>

datatype app_event =
    SetStep AppStep
  | Call_analyzeRequirements js_string js_string
  | Call_generatePersonaProfile js_string js_string "js_string list" "ReferenceMaterial list"
  | Call_generateDiscussionGuide js_string PersonaProfile js_string js_string
  | Call_createInterviewSession PersonaProfile js_string
  | Call_generateInterviewSummary PersonaProfile js_string "ChatMessage list"

fun steps_set :: "app_event list \<Rightarrow> AppStep list" where
  "steps_set [] = []"
| "steps_set (SetStep x # evs) = x # steps_set evs"
| "steps_set (ev # evs) = steps_set evs"

fun persona_calls ::
  "app_event list \<Rightarrow> (js_string \<times> js_string \<times> js_string list \<times> ReferenceMaterial list) list"
where
  "persona_calls [] = []"
| "persona_calls (Call_generatePersonaProfile i a c m # evs) = (i, a, c, m) # persona_calls evs"
| "persona_calls (ev # evs) = persona_calls evs"

text \<open>\<open>executePersonaGeneration\<close> has no \<open>try\<close>: the first component is what it throws.\<close>

definition executePersonaGeneration ::
  "js_string \<Rightarrow> js_string \<Rightarrow> js_string list \<Rightarrow> ReferenceMaterial list
   \<Rightarrow> (js_error + PersonaProfile \<times> GroundingSource list) \<Rightarrow> app_state
   \<Rightarrow> js_error option \<times> app_state \<times> app_event list"
where
  "executePersonaGeneration ind audience clars materials generated st =
     (case generated of
        Inl e \<Rightarrow> (Some e, st, [Call_generatePersonaProfile ind audience clars materials])
      | Inr (prof, fetchedSources) \<Rightarrow>
          (None, st\<lparr>persona := Some prof, sources := fetchedSources, step := PREVIEW\<rparr>,
           [Call_generatePersonaProfile ind audience clars materials, SetStep PREVIEW]))"

definition materials_of :: "ResearchConfig \<Rightarrow> ReferenceMaterial list" where
  "materials_of c = (case referenceMaterials c of None \<Rightarrow> [] | Some ms \<Rightarrow> ms)"

definition handleInitialSubmit ::
  "ResearchConfig \<Rightarrow> (js_error + ClarifyingQuestion list option)
   \<Rightarrow> (js_error + PersonaProfile \<times> GroundingSource list) \<Rightarrow> app_state
   \<Rightarrow> app_state \<times> app_event list"
where
  "handleInitialSubmit inputConfig analyzed generated st =
     (let st1 = st\<lparr>config := Some inputConfig, step := RESEARCHING, error := None\<rparr>;
          ev1 = [SetStep RESEARCHING,
                 Call_analyzeRequirements (industry inputConfig) (targetAudience inputConfig)]
      in case analyzed of
           Inl e \<Rightarrow> (st1\<lparr>error := Some error_analyze, step := SETUP\<rparr>, ev1 @ [SetStep SETUP])
         | Inr questions \<Rightarrow>
             if questions \<noteq> None \<and> length (the questions) > 0 then
               (st1\<lparr>clarificationQuestions := the questions, step := CLARIFYING\<rparr>,
                ev1 @ [SetStep CLARIFYING])
             else
               (case executePersonaGeneration (industry inputConfig) (targetAudience inputConfig)
                       [] (materials_of inputConfig) generated st1 of
                  (None, st2, ev2) \<Rightarrow> (st2, ev1 @ ev2)
                | (Some e, st2, ev2) \<Rightarrow>
                    (st2\<lparr>error := Some error_analyze, step := SETUP\<rparr>,
                     ev1 @ ev2 @ [SetStep SETUP])))"

definition handleClarificationSubmit ::
  "js_string list \<Rightarrow> (js_error + PersonaProfile \<times> GroundingSource list) \<Rightarrow> app_state
   \<Rightarrow> app_state \<times> app_event list"
where
  "handleClarificationSubmit answers generated st =
     (case config st of
        None \<Rightarrow> (st, [])
      | Some c \<Rightarrow>
          (case executePersonaGeneration (industry c) (targetAudience c) answers
                  (materials_of c) generated (st\<lparr>step := RESEARCHING\<rparr>) of
             (None, st2, ev2) \<Rightarrow> (st2, SetStep RESEARCHING # ev2)
           | (Some e, st2, ev2) \<Rightarrow>
               (st2\<lparr>error := Some error_persona, step := SETUP\<rparr>,
                SetStep RESEARCHING # ev2 @ [SetStep SETUP])))"

definition handleConfirmProfile :: "app_state \<Rightarrow> app_state" where
  "handleConfirmProfile st = st\<lparr>step := GUIDE_INPUT\<rparr>"

definition handleGenerateGuide ::
  "js_string \<Rightarrow> js_string \<Rightarrow> (js_error + js_string list) \<Rightarrow> app_state
   \<Rightarrow> app_state \<times> app_event list"
where
  "handleGenerateGuide objs userQs generated st =
     (case (persona st, config st) of
        (Some p, Some c) \<Rightarrow>
          (let st1 = st\<lparr>isLoadingGuide := True\<rparr>;
               ev1 = [Call_generateDiscussionGuide (industry c) p objs userQs]
           in case generated of
                Inr guide \<Rightarrow>
                  (st1\<lparr>discussionGuide := guide, step := GUIDE_REVIEW, isLoadingGuide := False\<rparr>,
                   ev1 @ [SetStep GUIDE_REVIEW])
              | Inl e \<Rightarrow> (st1\<lparr>error := Some error_guide, isLoadingGuide := False\<rparr>, ev1))
      | _ \<Rightarrow> (st, []))"

definition handleConfirmGuide :: "js_string list \<Rightarrow> app_state \<Rightarrow> app_state" where
  "handleConfirmGuide finalGuide st = st\<lparr>discussionGuide := finalGuide, step := MODE_SELECTION\<rparr>"

definition startInterview ::
  "InterviewMode \<Rightarrow> (js_error + Chat) \<Rightarrow> app_state \<Rightarrow> app_state \<times> app_event list"
where
  "startInterview m created st =
     (case (persona st, config st) of
        (Some p, Some c) \<Rightarrow>
          (let st1 = st\<lparr>interviewMode := m\<rparr>;
               ev1 = [Call_createInterviewSession p (industry c)]
           in case created of
                Inr session \<Rightarrow>
                  (st1\<lparr>chatSession := Some session, step := INTERVIEW\<rparr>,
                   ev1 @ [SetStep INTERVIEW])
              | Inl e \<Rightarrow> (st1\<lparr>error := Some error_session\<rparr>, ev1))
      | _ \<Rightarrow> (st, []))"

definition handleEndSession ::
  "ChatMessage list \<Rightarrow> (js_error + InterviewSummary) \<Rightarrow> app_state
   \<Rightarrow> app_state \<times> app_event list"
where
  "handleEndSession msgs summarized st =
     (case (persona st, config st) of
        (Some p, Some c) \<Rightarrow>
          (let st1 = st\<lparr>chatHistory := msgs, step := RESEARCHING\<rparr>;
               ev1 = [SetStep RESEARCHING, Call_generateInterviewSummary p (industry c) msgs]
           in case summarized of
                Inr summaryData \<Rightarrow>
                  (st1\<lparr>summary := Some summaryData, step := SUMMARY\<rparr>, ev1 @ [SetStep SUMMARY])
              | Inl e \<Rightarrow>
                  (st1\<lparr>error := Some error_summary, step := INTERVIEW\<rparr>,
                   ev1 @ [SetStep INTERVIEW]))
      | _ \<Rightarrow> (st, []))"

definition handleReset :: "app_state \<Rightarrow> app_state" where
  "handleReset st =
     st\<lparr>step := SETUP, config := None, persona := None, chatSession := None, sources := [],
        clarificationQuestions := [], summary := None, chatHistory := [], discussionGuide := [],
        error := None\<rparr>"

text \<open>\<open>onSwitchToManual\<close>, the callback \<open>App\<close> hands to the chat view.\<close>

definition onSwitchToManual :: "app_state \<Rightarrow> app_state" where
  "onSwitchToManual st = st\<lparr>interviewMode := MANUAL\<rparr>"

text \<open>
  The states \<open>App\<close> can be in: those the handlers lead to from the initial one, whatever
  the collaborators answer. No handler looks at \<open>step\<close>; the views that call them do, so
  this set contains every state of a run.
\<close>

inductive app_reachable :: "app_state \<Rightarrow> bool" where
  r_initial: "app_reachable initial_app"
| r_initialSubmit:
    "app_reachable st \<Longrightarrow> app_reachable (fst (handleInitialSubmit c analyzed generated st))"
| r_clarificationSubmit:
    "app_reachable st \<Longrightarrow> app_reachable (fst (handleClarificationSubmit answers generated st))"
| r_confirmProfile: "app_reachable st \<Longrightarrow> app_reachable (handleConfirmProfile st)"
| r_generateGuide:
    "app_reachable st \<Longrightarrow> app_reachable (fst (handleGenerateGuide objs userQs generated st))"
| r_confirmGuide: "app_reachable st \<Longrightarrow> app_reachable (handleConfirmGuide finalGuide st)"
| r_startInterview: "app_reachable st \<Longrightarrow> app_reachable (fst (startInterview m created st))"
| r_endSession: "app_reachable st \<Longrightarrow> app_reachable (fst (handleEndSession msgs summarized st))"
| r_reset: "app_reachable st \<Longrightarrow> app_reachable (handleReset st)"
| r_switchToManual: "app_reachable st \<Longrightarrow> app_reachable (onSwitchToManual st)"


section \<open>GuideReview: confirming the guide\<close>

text \<open>The button calls \<open>onConfirm(questions.filter(q => q.trim().length > 0))\<close>, and
  \<open>onConfirm\<close> is \<open>handleConfirmGuide\<close>.\<close>

definition GuideReview_onConfirm :: "js_string list \<Rightarrow> app_state \<Rightarrow> app_state" where
  "GuideReview_onConfirm questions st =
     handleConfirmGuide (filter (\<lambda>q. length (trim q) > 0) questions) st"


section \<open>ChatInterface: the interview turn loop\<close>

datatype ModeratorStatus = Idle | Thinking | Done

text \<open>
  The state of the component: its \<open>useState\<close> variables, the ref \<open>hasStartedRef\<close>, and
  the props that the loop reads. \<open>mode\<close> is the \<open>interviewMode\<close> of \<open>App\<close>, which the
  callback \<open>onSwitchToManual\<close> sets to \<open>MANUAL\<close>; \<open>guide\<close> and \<open>profile\<close> do not change
  during an interview.
\<close>

record chat_state =
  messages :: "ChatMessage list"
  input :: js_string
  isTyping :: bool
  aiModeratorStatus :: ModeratorStatus
  retryTrigger :: nat
  hasStartedRef :: bool
  mode :: InterviewMode
  guide :: "js_string list"
  profile :: PersonaProfile

text \<open>
  The asynchronous functions of the component are cut at their \<open>await\<close>s. Each piece runs
  to its end, updates the state and may leave one thing awaited, a task: the reply of the
  chat session to the opening prompt, the 3000 ms timer of the moderator loop with the
  \<open>messages\<close>, \<open>guide\<close> and \<open>profile\<close> of its closure, the moderator's decision on those,
  the reply to the moderator's question, the 5000 ms timer after a rate-limit error, and
  the reply to the user's message.
\<close>

datatype task =
    OpeningReply
  | PacingDelay "ChatMessage list" "js_string list" PersonaProfile
  | ModeratorCall "ChatMessage list" "js_string list" PersonaProfile
  | PersonaReply js_string
  | Cooldown
  | ManualReply js_string

fun timer_ms :: "task \<Rightarrow> nat option" where
  "timer_ms (PacingDelay m g p) = Some 3000"
| "timer_ms Cooldown = Some 5000"
| "timer_ms t = None"

text \<open>
  The literals of the component: the Chinese "Hello." that stands in for an empty
  opening reply, the \<open>...\<close> that stands in for any other empty reply, and the Chinese
  "(network unstable, please retry)" put in for a reply that failed.
\<close>

definition hello :: js_string where
  "hello = [0x4F60, 0x597D, 0x3002]"

definition ellipsis :: js_string where
  "ellipsis = ascii ''...''"

definition network_placeholder :: js_string where
  "network_placeholder =
     [0x28, 0x7F51, 0x7EDC, 0x6CE2, 0x52A8, 0xFF0C, 0x8BF7, 0x91CD, 0x8BD5, 0x29]"

text \<open>
  The initial greeting. The effect runs \<open>startConversation\<close> once, guarded by the ref.
  A reply is \<open>Inr\<close> of the \<open>text\<close> of the response, or \<open>Inl\<close> of what was thrown;
  \<open>now\<close> is the \<open>new Date()\<close> of the message.
\<close>

definition startConversation :: "chat_state \<Rightarrow> chat_state \<times> task list" where
  "startConversation st = (st\<lparr>isTyping := True\<rparr>, [OpeningReply])"

definition initialGreeting :: "chat_state \<Rightarrow> chat_state \<times> task list" where
  "initialGreeting st =
     (if hasStartedRef st then (st, []) else startConversation (st\<lparr>hasStartedRef := True\<rparr>))"

definition startConversation_replied ::
  "(js_error + js_string option) \<Rightarrow> nat \<Rightarrow> chat_state \<Rightarrow> chat_state \<times> task list"
where
  "startConversation_replied reply now st =
     (case reply of
        Inr t \<Rightarrow>
          (st\<lparr>messages := [\<lparr>role = Model, text = or_else t hello, timestamp = now,
                              isAiInterviewer = None\<rparr>],
              isTyping := False\<rparr>, [])
      | Inl e \<Rightarrow> (st\<lparr>isTyping := False\<rparr>, []))"

text \<open>The moderator loop, up to its first \<open>await\<close>.\<close>

definition runAiModeratorLoop :: "chat_state \<Rightarrow> chat_state \<times> task list" where
  "runAiModeratorLoop st =
     (if mode st \<noteq> AUTO then (st, [])
      else if length (messages st) = 0 then (st, [])
      else if isTyping st then (st, [])
      else if role (last (messages st)) = Model then
        (st\<lparr>aiModeratorStatus := Thinking\<rparr>, [PacingDelay (messages st) (guide st) (profile st)])
      else (st, []))"

text \<open>After the 3000 ms: \<open>getAIInterviewerNextQuestion(messages, guide, profile)\<close>.\<close>

definition runAiModeratorLoop_paced ::
  "ChatMessage list \<Rightarrow> js_string list \<Rightarrow> PersonaProfile \<Rightarrow> chat_state
   \<Rightarrow> chat_state \<times> task list"
where
  "runAiModeratorLoop_paced m g p st = (st, [ModeratorCall m g p])"

text \<open>The \<open>catch\<close> of the loop: \<open>e?.status === 429 || e?.message?.includes('429')\<close>.\<close>

definition is429 :: "js_error \<Rightarrow> bool" where
  "is429 e =
     (status e = Some 429
      \<or> (case message e of None \<Rightarrow> False | Some m \<Rightarrow> js_includes m (ascii ''429'')))"

definition runAiModeratorLoop_catch :: "js_error \<Rightarrow> chat_state \<Rightarrow> chat_state \<times> task list" where
  "runAiModeratorLoop_catch e st =
     (if is429 e then (st, [Cooldown]) else (st\<lparr>aiModeratorStatus := Idle\<rparr>, []))"

definition runAiModeratorLoop_cooled :: "chat_state \<Rightarrow> chat_state \<times> task list" where
  "runAiModeratorLoop_cooled st = (st\<lparr>retryTrigger := retryTrigger st + 1\<rparr>, [])"

text \<open>The moderator has decided: a question, the \<open>null\<close> of a complete interview, or a
  failure.\<close>

definition runAiModeratorLoop_decided ::
  "(js_error + js_string option) \<Rightarrow> nat \<Rightarrow> chat_state \<Rightarrow> chat_state \<times> task list"
where
  "runAiModeratorLoop_decided decision now st =
     (case decision of
        Inl e \<Rightarrow> runAiModeratorLoop_catch e st
      | Inr nextQuestion \<Rightarrow>
          if nextQuestion \<noteq> None \<and> the nextQuestion \<noteq> [] then
            (st\<lparr>messages := messages st @ [\<lparr>role = User, text = the nextQuestion,
                                              timestamp = now, isAiInterviewer = Some True\<rparr>],
                aiModeratorStatus := Idle, isTyping := True\<rparr>,
             [PersonaReply (the nextQuestion)])
          else (st\<lparr>aiModeratorStatus := Done, mode := MANUAL\<rparr>, []))"

definition runAiModeratorLoop_answered ::
  "(js_error + js_string option) \<Rightarrow> nat \<Rightarrow> chat_state \<Rightarrow> chat_state \<times> task list"
where
  "runAiModeratorLoop_answered reply now st =
     (case reply of
        Inl e \<Rightarrow> runAiModeratorLoop_catch e st
      | Inr t \<Rightarrow>
          (st\<lparr>messages := messages st @ [\<lparr>role = Model, text = or_else t ellipsis,
                                            timestamp = now, isAiInterviewer = None\<rparr>],
              isTyping := False\<rparr>, []))"

text \<open>The manual send, up to its \<open>await\<close>, and after it.\<close>

definition handleManualSend :: "nat \<Rightarrow> chat_state \<Rightarrow> chat_state \<times> task list" where
  "handleManualSend now st =
     (if trim (input st) = [] \<or> isTyping st then (st, [])
      else
        (let st1 = (if mode st = AUTO then st\<lparr>mode := MANUAL\<rparr> else st);
             userMsg = trim (input st)
         in (st1\<lparr>input := [],
                 messages := messages st1 @ [\<lparr>role = User, text = userMsg, timestamp = now,
                                                isAiInterviewer = Some False\<rparr>],
                 isTyping := True\<rparr>,
             [ManualReply userMsg])))"

definition handleManualSend_replied ::
  "(js_error + js_string option) \<Rightarrow> nat \<Rightarrow> chat_state \<Rightarrow> chat_state \<times> task list"
where
  "handleManualSend_replied reply now st =
     (case reply of
        Inr t \<Rightarrow>
          (st\<lparr>messages := messages st @ [\<lparr>role = Model, text = or_else t ellipsis,
                                            timestamp = now, isAiInterviewer = None\<rparr>],
              isTyping := False\<rparr>, [])
      | Inl e \<Rightarrow>
          (st\<lparr>messages := messages st @ [\<lparr>role = Model, text = network_placeholder,
                                            timestamp = now, isAiInterviewer = None\<rparr>],
              isTyping := False\<rparr>, []))"

text \<open>
  The moderator effect runs again after an update that changed one of its dependencies
  \<open>[messages, mode, guide, profile, chatSession, onSwitchToManual, isTyping, retryTrigger]\<close>.
  The chat session stays the same during an interview, and \<open>App\<close> makes the callback
  anew only when it renders again, which during an interview is when \<open>mode\<close> changes.
  The updates of one piece are applied together; applied one render at a time they lead
  to the same runs of the loop, since each run in between stops at one of its tests.
\<close>

definition deps ::
  "chat_state \<Rightarrow> ChatMessage list \<times> InterviewMode \<times> js_string list \<times> PersonaProfile \<times> bool \<times> nat"
where
  "deps st = (messages st, mode st, guide st, profile st, isTyping st, retryTrigger st)"

definition rerender :: "chat_state \<Rightarrow> chat_state \<times> task list \<Rightarrow> chat_state \<times> task list" where
  "rerender before upd =
     (case upd of
        (st, spawned) \<Rightarrow>
          if deps st = deps before then (st, spawned)
          else (case runAiModeratorLoop st of (st', ts) \<Rightarrow> (st', spawned @ ts)))"

text \<open>What resumes when an awaited task is over. A timer has no reply to look at.\<close>

fun resume ::
  "task \<Rightarrow> (js_error + js_string option) \<Rightarrow> nat \<Rightarrow> chat_state \<Rightarrow> chat_state \<times> task list"
where
  "resume OpeningReply reply now st = startConversation_replied reply now st"
| "resume (PacingDelay m g p) reply now st = runAiModeratorLoop_paced m g p st"
| "resume (ModeratorCall m g p) reply now st = runAiModeratorLoop_decided reply now st"
| "resume (PersonaReply q) reply now st = runAiModeratorLoop_answered reply now st"
| "resume Cooldown reply now st = runAiModeratorLoop_cooled st"
| "resume (ManualReply q) reply now st = handleManualSend_replied reply now st"

text \<open>
  Mounting the component runs both effects on the initial state. From then on one step
  is: an awaited task is over and its continuation runs; the user types; the user submits
  the form; the user takes over; the greeting effect is run once more (as a second
  invocation at mount time would). The tasks still awaited are kept beside the state.
\<close>

definition mount ::
  "InterviewMode \<Rightarrow> js_string list \<Rightarrow> PersonaProfile \<Rightarrow> chat_state \<times> task list"
where
  "mount m g p =
     (case initialGreeting
             \<lparr>messages = [], input = [], isTyping = False, aiModeratorStatus = Idle,
              retryTrigger = 0, hasStartedRef = False, mode = m, guide = g, profile = p\<rparr> of
        (st1, ts1) \<Rightarrow> (case runAiModeratorLoop st1 of (st2, ts2) \<Rightarrow> (st2, ts1 @ ts2)))"

inductive chat_step :: "chat_state \<times> task list \<Rightarrow> chat_state \<times> task list \<Rightarrow> bool" where
  task_over:
    "t \<in> set ts \<Longrightarrow> rerender st (resume t reply now st) = (st', spawned) \<Longrightarrow>
     chat_step (st, ts) (st', remove1 t ts @ spawned)"
| typed: "chat_step (st, ts) (st\<lparr>input := v\<rparr>, ts)"
| submitted:
    "rerender st (handleManualSend now st) = (st', spawned) \<Longrightarrow>
     chat_step (st, ts) (st', ts @ spawned)"
| taken_over:
    "rerender st (st\<lparr>mode := MANUAL\<rparr>, []) = (st', spawned) \<Longrightarrow>
     chat_step (st, ts) (st', ts @ spawned)"
| greeted_again:
    "rerender st (initialGreeting st) = (st', spawned) \<Longrightarrow>
     chat_step (st, ts) (st', ts @ spawned)"

inductive chat_reachable :: "chat_state \<times> task list \<Rightarrow> bool" where
  mounted: "chat_reachable (mount m g p)"
| stepped: "chat_reachable c \<Longrightarrow> chat_step c c' \<Longrightarrow> chat_reachable c'"

text \<open>A step that leaves the transcript as it is.\<close>

definition silent_step :: "chat_state \<times> task list \<Rightarrow> chat_state \<times> task list \<Rightarrow> bool" where
  "silent_step c c' = (chat_step c c' \<and> messages (fst c') = messages (fst c))"


text \<open>
  What \<open>App\<close> renders of the chat: the \<open>ChatInterface\<close>, in the interview stage only
  and only with a chat session and a persona, with \<open>interviewMode\<close>, \<open>discussionGuide\<close>
  and the persona as its props. Where a state renders it and the state rendered before
  did not, the view is mounted: it starts as \<open>mount\<close> makes it. No state variable of
  \<open>App\<close> is handed to it as its messages.
\<close>

definition fresh_view :: "app_state \<Rightarrow> (chat_state \<times> task list) option" where
  "fresh_view st =
     (if step st = INTERVIEW then
        (case (chatSession st, persona st) of
           (Some session, Some p) \<Rightarrow> Some (mount (interviewMode st) (discussionGuide st) p)
         | _ \<Rightarrow> None)
      else None)"


text \<open>An entry is blank when it holds nothing but white space.\<close>

definition blank :: "js_string \<Rightarrow> bool" where
  "blank q = list_all isWhiteSpace q"


section \<open>A run of the workflow\<close>

text \<open>
  The scenario of the specification: a coffee-machine study of budget-minded students,
  no clarifying question, a generated persona, a confirmed guide, an interview started
  in Auto mode.
\<close>

definition example_config :: ResearchConfig where
  "example_config =
     \<lparr>industry = [0x5496, 0x5561, 0x673A],
      targetAudience = [0x9884, 0x7B97, 0x654F, 0x611F, 0x578B, 0x5927, 0x5B66, 0x751F],
      clarifications = None, objectives = None, userQuestions = None,
      referenceMaterials = None\<rparr>"

definition example_persona :: PersonaProfile where
  "example_persona =
     \<lparr>rawMarkdown = ascii ''# Ann'', name = ascii ''Ann'', summary_p = ascii ''# Ann...'',
      imageUrl = None, scores = Some default_scores\<rparr>"

definition example_preview :: app_state where
  "example_preview =
     fst (handleInitialSubmit example_config (Inr None) (Inr (example_persona, [])) initial_app)"

definition example_guide_input :: app_state where
  "example_guide_input = handleConfirmProfile example_preview"

definition example_interview :: app_state where
  "example_interview =
     fst (startInterview AUTO (Inr (Chat 0))
            (GuideReview_onConfirm fallback_guide
               (fst (handleGenerateGuide [] [] (Inr fallback_guide) example_guide_input))))"



text \<open>A backend that fails every call with a server error, which is not a rate limit.\<close>

definition error500 :: js_error where
  "error500 = \<lparr>status = Some 500, code = None, message = Some (ascii ''Internal error'')\<rparr>"

definition always500 :: "nat backend" where
  "always500 calls = (Inl error500, Suc calls)"


text \<open>
  A backend whose text call answers with a profile scored 7 on demographics, with what
  the library makes of that text: \<open>JSON.parse\<close> on it, no json fence in it, and the
  heading \<open>Ann\<close> of its markdown.
\<close>

definition example_scores :: json where
  "example_scores =
     JObj [(ascii ''demographics'', JNum 7), (ascii ''psychographics'', JNum 3),
           (ascii ''behaviors'', JNum 3), (ascii ''needs'', JNum 3)]"

definition example_profile_text :: js_string where
  \<open>example_profile_text =
     ascii (''{"markdownProfile":"# Ann","scores":{"demographics":7,''
            @ ''"psychographics":3,"behaviors":3,"needs":3}}'')\<close>

definition example_parse :: "js_string \<Rightarrow> json option" where
  "example_parse t =
     (if t = example_profile_text
      then Some (JObj [(ascii ''markdownProfile'', JStr (ascii ''# Ann'')),
                       (ascii ''scores'', example_scores)])
      else None)"

definition example_heading :: "js_string \<Rightarrow> js_string option" where
  "example_heading m = (if m = ascii ''# Ann'' then Some (ascii ''Ann'') else None)"

definition profile_backend :: "nat backend" where
  "profile_backend calls =
     (Inr \<lparr>response_text = Some example_profile_text, groundingChunks = None,
           inlineData = None\<rparr>, Suc calls)"

text \<open>A backend whose answer is two spaces.\<close>

definition blank_backend :: "nat backend" where
  "blank_backend calls =
     (Inr \<lparr>response_text = Some (ascii ''  ''), groundingChunks = None, inlineData = None\<rparr>,
      Suc calls)"


text \<open>
  A moderator turn of an interview in Auto mode: the persona has introduced itself, the
  moderator is thinking. And the state after the moderator has asked its question.
\<close>

definition greeting :: ChatMessage where
  "greeting = \<lparr>role = Model, text = hello, timestamp = 1, isAiInterviewer = None\<rparr>"

definition example_question :: js_string where
  "example_question = ascii ''Which machine do you use?''"

definition example_turn :: chat_state where
  "example_turn =
     \<lparr>messages = [greeting], input = [], isTyping = False, aiModeratorStatus = Thinking,
      retryTrigger = 0, hasStartedRef = True, mode = AUTO, guide = fallback_guide,
      profile = example_persona\<rparr>"

definition example_asked :: chat_state where
  "example_asked =
     example_turn\<lparr>messages := [greeting, \<lparr>role = User, text = example_question, timestamp = 2,
                                         isAiInterviewer = Some True\<rparr>],
                  aiModeratorStatus := Idle, isTyping := True\<rparr>"

text \<open>
  The ref is set from the mount on. While the reply to the opening prompt is awaited,
  nothing else is, the transcript is empty and the persona counts as typing.
\<close>

definition opening_inv :: "chat_state \<times> task list \<Rightarrow> bool" where
  "opening_inv c =
     (hasStartedRef (fst c)
      \<and> (OpeningReply \<in> set (snd c) \<longrightarrow>
            snd c = [OpeningReply] \<and> messages (fst c) = [] \<and> isTyping (fst c)))"


chapter \<open>Properties\<close>

section \<open>Strings\<close>

lemma js_includes_sublist: "js_includes s pat = sublist pat s"
  by (induction s) (auto simp: sublist_Cons_right)

lemma trim_blank_iff: "trim s = [] \<longleftrightarrow> (\<forall>c \<in> set s. isWhiteSpace c)"
proof
  assume "trim s = []"
  then have a: "\<forall>x \<in> set (dropWhile isWhiteSpace s). isWhiteSpace x"
    by (simp add: trim_def dropWhile_eq_Nil_conv)
  have "dropWhile isWhiteSpace s = []"
  proof (rule ccontr)
    assume n: "dropWhile isWhiteSpace s \<noteq> []"
    then have "\<not> isWhiteSpace (hd (dropWhile isWhiteSpace s))"
      by (rule hd_dropWhile)
    moreover have "hd (dropWhile isWhiteSpace s) \<in> set (dropWhile isWhiteSpace s)"
      using n by simp
    ultimately show False using a by blast
  qed
  then show "\<forall>c \<in> set s. isWhiteSpace c"
    by (simp add: dropWhile_eq_Nil_conv)
next
  assume "\<forall>c \<in> set s. isWhiteSpace c"
  then have "dropWhile isWhiteSpace s = []"
    by (simp add: dropWhile_eq_Nil_conv)
  then show "trim s = []"
    by (auto simp: trim_def dest: set_dropWhileD)
qed


section \<open>The retry helper\<close>

text \<open>The three ways one call of the helper goes, as rewrite rules.\<close>

lemma runWithRetry_resolved:
  "\<not> isl (fst (operation s)) \<Longrightarrow>
   runWithRetry operation retries delay s = (fst (operation s), [], snd (operation s))"
  by (cases "operation s"; cases "fst (operation s)")
     (auto simp: runWithRetry.simps[of operation retries delay s])

lemma runWithRetry_rethrown:
  "isl (fst (operation s)) \<Longrightarrow>
   \<not> (isRateLimit (projl (fst (operation s))) \<and> retries > 0) \<Longrightarrow>
   runWithRetry operation retries delay s = (fst (operation s), [], snd (operation s))"
  by (cases "operation s"; cases "fst (operation s)")
     (auto simp: runWithRetry.simps[of operation retries delay s])

lemma runWithRetry_retried:
  "isl (fst (operation s)) \<Longrightarrow> isRateLimit (projl (fst (operation s))) \<Longrightarrow> retries > 0 \<Longrightarrow>
   runWithRetry operation retries delay s =
     (case runWithRetry operation (retries - 1) (delay * 2) (snd (operation s)) of
        (r, waits, s'') \<Rightarrow> (r, delay # waits, s''))"
  by (cases "operation s"; cases "fst (operation s)")
     (auto simp: runWithRetry.simps[of operation retries delay s])

lemma attempt_0: "attempt operation 0 s = fst (operation s)"
  by (simp add: attempt_def)

lemma attempt_Suc: "attempt operation (Suc k) s = attempt operation k (snd (operation s))"
  by (simp add: attempt_def)

lemma backoff_shift:
  "delay # map (\<lambda>k. delay * 2 * 2 ^ k) [0..<n] = map (\<lambda>k. (delay::nat) * 2 ^ k) [0..<Suc n]"
  by (simp add: map_upt_Suc mult.assoc del: upt_Suc)

lemma runWithRetry_char:
  "runWithRetry operation retries delay s = (res, waits, s') \<Longrightarrow>
     length waits \<le> retries
   \<and> waits = map (\<lambda>k. delay * 2 ^ k) [0..<length waits]
   \<and> (\<forall>k<length waits. \<exists>e. attempt operation k s = Inl e \<and> isRateLimit e)
   \<and> res = attempt operation (length waits) s
   \<and> s' = env_after operation (Suc (length waits)) s
   \<and> (\<forall>e. res = Inl e \<longrightarrow> \<not> isRateLimit e \<or> length waits = retries)"
proof (induction operation retries delay s arbitrary: res waits s' rule: runWithRetry.induct)
  case (1 operation retries delay s)
  obtain r s1 where op: "operation s = (r, s1)"
    by (cases "operation s")
  show ?case
  proof (cases r)
    case (Inr v)
    with op "1.prems" show ?thesis
      by (auto simp: attempt_0 runWithRetry.simps[of operation retries delay s])
  next
    case (Inl e)
    show ?thesis
    proof (cases "isRateLimit e \<and> retries > 0")
      case False
      with op Inl "1.prems" show ?thesis
        by (auto simp: attempt_0 runWithRetry.simps[of operation retries delay s])
    next
      case True
      obtain r2 w2 s2
        where rec: "runWithRetry operation (retries - 1) (delay * 2) s1 = (r2, w2, s2)"
        by (cases "runWithRetry operation (retries - 1) (delay * 2) s1") auto
      note ih = "1.IH"[OF op[symmetric] Inl True rec]
      from op Inl True rec "1.prems"
      have eqs: "res = r2" "waits = delay # w2" "s' = s2"
        by (simp_all add: runWithRetry.simps[of operation retries delay s])
      have c1: "length waits \<le> retries"
        using ih True eqs by auto
      have "w2 = map (\<lambda>k. delay * 2 * 2 ^ k) [0..<length w2]"
        using ih by blast
      then have c2: "waits = map (\<lambda>k. delay * 2 ^ k) [0..<length waits]"
        using backoff_shift[of delay "length w2"] eqs by simp
      have c3: "\<forall>k<length waits. \<exists>e. attempt operation k s = Inl e \<and> isRateLimit e"
      proof (intro allI impI)
        fix k assume k: "k < length waits"
        show "\<exists>e. attempt operation k s = Inl e \<and> isRateLimit e"
        proof (cases k)
          case 0
          then show ?thesis
            using op Inl True by (simp add: attempt_0)
        next
          case (Suc j)
          then have "j < length w2"
            using k eqs by simp
          then show ?thesis
            using ih Suc op by (simp add: attempt_Suc)
        qed
      qed
      have c4: "res = attempt operation (length waits) s"
        using ih eqs op by (simp add: attempt_Suc)
      have c5: "s' = env_after operation (Suc (length waits)) s"
        using ih eqs op by simp
      have c6: "\<forall>e. res = Inl e \<longrightarrow> \<not> isRateLimit e \<or> length waits = retries"
        using ih eqs True by auto
      from c1 c2 c3 c4 c5 c6 show ?thesis
        by blast
    qed
  qed
qed

text \<open>
  C9. \<open>runWithRetry\<close> is a total function: whatever the operation does, it ends in a
  result or an error after at most \<open>retries\<close> waits, that is \<open>retries + 1\<close> calls. The
  wait before retry number \<open>k\<close> is \<open>delay * 2 ^ k\<close>: it doubles each time. Every call that
  was retried had thrown a rate-limit error; what is returned is what the last call
  made resolved to or threw, as it is; and an error is only ever returned when it is not
  a rate-limit error (thrown at once, after no further call) or when the \<open>retries\<close>
  retries are used up.
\<close>

theorem runWithRetry_bounded_backoff:
  "case runWithRetry operation retries delay s of (res, waits, s') \<Rightarrow>
     length waits \<le> retries
   \<and> waits = map (\<lambda>k. delay * 2 ^ k) [0..<length waits]
   \<and> (\<forall>k<length waits. \<exists>e. attempt operation k s = Inl e \<and> isRateLimit e)
   \<and> res = attempt operation (length waits) s
   \<and> s' = env_after operation (Suc (length waits)) s
   \<and> (\<forall>e. res = Inl e \<longrightarrow> \<not> isRateLimit e \<or> length waits = retries)"
proof (cases "runWithRetry operation retries delay s")
  case (fields res waits s')
  show ?thesis
    unfolding fields prod.case by (rule runWithRetry_char[OF fields])
qed

theorem runWithRetry_bounded_backoff_witness:
  "runWithRetry always429 2 5000 0 = (Inl error429, [5000, 10000], 3)
   \<and> length [5000::nat, 10000] \<le> 2
   \<and> Inl error429 = attempt always429 (length [5000::nat, 10000]) 0
   \<and> 3 = env_after always429 (Suc (length [5000::nat, 10000])) 0
   \<and> isRateLimit error429"
proof -
  have run: "runWithRetry always429 2 5000 0 = (Inl error429, [5000, 10000], 3)"
    by (simp add: runWithRetry_rethrown runWithRetry_retried always429_def error429_def
          isRateLimit_def)
  note t = runWithRetry_bounded_backoff[where operation=always429 and retries=2 and delay=5000
      and s=0, unfolded run prod.case]
  note a = t[THEN conjunct1]
  note b = t[THEN conjunct2, THEN conjunct2, THEN conjunct2, THEN conjunct1]
  note c = t[THEN conjunct2, THEN conjunct2, THEN conjunct2, THEN conjunct2, THEN conjunct1]
  have d: "isRateLimit error429"
    by (simp add: error429_def isRateLimit_def)
  from run a b c d show ?thesis
    by (intro conjI)
qed

lemma third_time_lucky_run:
  "runWithRetry third_time_lucky 5 4000 0 = (Inr 7, [4000, 8000], 3)"
  by (simp add: runWithRetry_resolved runWithRetry_retried third_time_lucky_def error429_def
        isRateLimit_def)


section \<open>The workflow state machine\<close>

lemmas handler_defs = handleInitialSubmit_def handleClarificationSubmit_def
  executePersonaGeneration_def handleConfirmProfile_def handleGenerateGuide_def
  handleConfirmGuide_def startInterview_def handleEndSession_def handleReset_def
  onSwitchToManual_def GuideReview_onConfirm_def


lemma example_guide_input_eq:
  "example_guide_input =
     \<lparr>step = GUIDE_INPUT, config = Some example_config, clarificationQuestions = [],
      persona = Some example_persona, sources = [], discussionGuide = [],
      interviewMode = MANUAL, chatSession = None, chatHistory = [], summary = None,
      error = None, isLoadingGuide = False\<rparr>"
  by (simp add: example_guide_input_def example_preview_def handler_defs initial_app_def)

lemma example_interview_reachable: "app_reachable example_interview"
  unfolding example_interview_def example_guide_input_def example_preview_def
    GuideReview_onConfirm_def
  by (intro app_reachable.intros)

lemma example_interview_eq:
  "example_interview =
     \<lparr>step = INTERVIEW, config = Some example_config, clarificationQuestions = [],
      persona = Some example_persona, sources = [], discussionGuide = fallback_guide,
      interviewMode = AUTO, chatSession = Some (Chat 0), chatHistory = [], summary = None,
      error = None, isLoadingGuide = False\<rparr>"
  by (simp add: example_interview_def example_guide_input_def example_preview_def handler_defs
        initial_app_def fallback_guide_def trim_def isWhiteSpace_def)


subsection \<open>Reset\<close>

text \<open>
  \<open>handleReset\<close> puts ten of the twelve state variables back to their initial values. It
  has no \<open>setInterviewMode\<close> and no \<open>setIsLoadingGuide\<close>: those two keep what they hold.
\<close>

lemma handleReset_restores:
  "handleReset st =
     initial_app\<lparr>interviewMode := interviewMode st, isLoadingGuide := isLoadingGuide st\<rparr>"
  by (simp add: handleReset_def initial_app_def)

text \<open>
  C1. Reset is to bring every field of the session back to its initial value, the
  interview mode to \<open>MANUAL\<close>. On the state of an interview started in Auto mode, which
  the workflow reaches, the reset leaves the interview mode at \<open>AUTO\<close>: the result is not
  the initial state.
\<close>

theorem handleReset_keeps_interviewMode:
  "app_reachable example_interview
   \<and> interviewMode example_interview = AUTO
   \<and> interviewMode (handleReset example_interview) = AUTO
   \<and> interviewMode initial_app = MANUAL
   \<and> handleReset example_interview \<noteq> initial_app"
proof -
  have a: "interviewMode (handleReset example_interview) = AUTO"
    by (simp add: example_interview_eq handleReset_def)
  have b: "interviewMode initial_app = MANUAL"
    by (simp add: initial_app_def)
  have "handleReset example_interview \<noteq> initial_app"
    using a b by auto
  with a b example_interview_reachable show ?thesis
    by (simp add: example_interview_eq)
qed


subsection \<open>Submitting the configuration\<close>

text \<open>
  C6. When \<open>analyzeRequirements\<close> returns no question (\<open>null\<close> or an empty list),
  \<open>handleInitialSubmit\<close> calls persona generation exactly once, with the empty list of
  clarifications, and never sets the stage to \<open>CLARIFYING\<close>. When the generation
  succeeds the stages set are \<open>RESEARCHING\<close> then \<open>PREVIEW\<close>; when it throws they are
  \<open>RESEARCHING\<close> then \<open>SETUP\<close>, with an error shown.
\<close>

theorem zero_questions_go_to_preview:
  assumes "questions = None \<or> questions = Some []"
  shows "case handleInitialSubmit inputConfig (Inr questions) generated st of
           (st', evs) \<Rightarrow>
             persona_calls evs =
               [(industry inputConfig, targetAudience inputConfig, [], materials_of inputConfig)]
           \<and> CLARIFYING \<notin> set (steps_set evs)
           \<and> (\<forall>made. generated = Inr made \<longrightarrow>
                 step st # steps_set evs = [step st, RESEARCHING, PREVIEW]
                 \<and> step st' = PREVIEW \<and> persona st' = Some (fst made))
           \<and> (\<forall>e. generated = Inl e \<longrightarrow>
                 step st # steps_set evs = [step st, RESEARCHING, SETUP]
                 \<and> step st' = SETUP \<and> error st' \<noteq> None)"
  using assms
  by (cases generated)
     (auto simp: handleInitialSubmit_def executePersonaGeneration_def Let_def split: prod.splits)

theorem zero_questions_go_to_preview_witness:
  "step initial_app = SETUP
   \<and> persona_calls (snd (handleInitialSubmit example_config (Inr None)
                            (Inr (example_persona, [])) initial_app))
       = [(industry example_config, targetAudience example_config, [], [])]
   \<and> step initial_app # steps_set (snd (handleInitialSubmit example_config (Inr None)
                                          (Inr (example_persona, [])) initial_app))
       = [SETUP, RESEARCHING, PREVIEW]
   \<and> step (fst (handleInitialSubmit example_config (Inr None)
                   (Inr (example_persona, [])) initial_app)) = PREVIEW"
proof -
  have m: "materials_of example_config = []"
    by (simp add: materials_of_def example_config_def)
  have i: "step initial_app = SETUP"
    by (simp add: initial_app_def)
  from zero_questions_go_to_preview[of None example_config "Inr (example_persona, [])"
      initial_app] m i
  show ?thesis
    by (auto split: prod.splits)
qed


subsection \<open>Generating the guide\<close>

lemma always500_run: "runWithRetry always500 retries delay s = (Inl error500, [], Suc s)"
  by (simp add: runWithRetry_rethrown always500_def error500_def isRateLimit_def ascii_def)

text \<open>
  The \<open>catch\<close> of \<open>handleGenerateGuide\<close>: were the collaborator to throw, the error
  would be shown and the stage left alone.
\<close>

lemma handleGenerateGuide_thrown:
  "persona st = Some p \<Longrightarrow> config st = Some c \<Longrightarrow>
   fst (handleGenerateGuide objs userQs (Inl e) st)
     = st\<lparr>error := Some error_guide, isLoadingGuide := False\<rparr>"
  by (simp add: handleGenerateGuide_def)

text \<open>
  Against C3 as stated. The backend fails the guide call with a server error. The
  workflow, in the guide-input stage, does not stay there and shows no error: it moves on
  to the guide review.
\<close>

theorem guide_failure_not_surfaced:
  "fst (runWithRetry always500 5 4000 0) = Inl error500
   \<and> step example_guide_input = GUIDE_INPUT
   \<and> step (fst (handleGenerateGuide [] []
                   (Inr (fst (generateDiscussionGuide (\<lambda>t. None) always500 0)))
                   example_guide_input)) = GUIDE_REVIEW
   \<and> error (fst (handleGenerateGuide [] []
                   (Inr (fst (generateDiscussionGuide (\<lambda>t. None) always500 0)))
                   example_guide_input)) = None"
  by (simp add: always500_run generateDiscussionGuide_def example_guide_input_eq
        handleGenerateGuide_def)

text \<open>
  C3, amended. When the backend call of the guide generation fails (the retries
  included), \<open>generateDiscussionGuide\<close> itself catches the failure and returns its three
  fallback questions; \<open>handleGenerateGuide\<close>, called with a persona and a configuration,
  stores them as the guide and moves to the guide review. No error is shown, the stage
  is not reset, and persona and configuration stay as they are.
\<close>

theorem guide_failure_falls_back:
  assumes "fst (runWithRetry operation 5 4000 s) = Inl e"
    and "persona st = Some p" and "config st = Some c"
  shows "case generateDiscussionGuide parse_questions operation s of
           (g, waits, s') \<Rightarrow>
             g = fallback_guide \<and> length g = 3
           \<and> (case handleGenerateGuide objs userQs (Inr g) st of
                (st', evs) \<Rightarrow>
                  step st' = GUIDE_REVIEW \<and> discussionGuide st' = fallback_guide
                \<and> error st' = error st \<and> persona st' = persona st
                \<and> config st' = config st)"
proof -
  obtain waits s' where "runWithRetry operation 5 4000 s = (Inl e, waits, s')"
    using assms(1) by (cases "runWithRetry operation 5 4000 s") auto
  then show ?thesis
    using assms(2,3)
    by (simp add: generateDiscussionGuide_def handleGenerateGuide_def fallback_guide_def)
qed

theorem guide_failure_falls_back_witness:
  "fst (runWithRetry always500 5 4000 0) = Inl error500
   \<and> persona example_guide_input = Some example_persona
   \<and> config example_guide_input = Some example_config
   \<and> fst (generateDiscussionGuide (\<lambda>t. None) always500 0) = fallback_guide
   \<and> step (fst (handleGenerateGuide [] [] (Inr fallback_guide) example_guide_input))
       = GUIDE_REVIEW"
proof -
  have a: "fst (runWithRetry always500 5 4000 0) = Inl error500"
    by (simp add: always500_run)
  have b: "persona example_guide_input = Some example_persona"
    by (simp add: example_guide_input_eq)
  have c: "config example_guide_input = Some example_config"
    by (simp add: example_guide_input_eq)
  from guide_failure_falls_back[OF a b c, where parse_questions="\<lambda>t. None" and objs="[]"
      and userQs="[]"] a b c
  show ?thesis
    by (auto split: prod.splits)
qed


subsection \<open>Confirming the guide\<close>

lemma trim_empty_iff_blank: "trim q = [] \<longleftrightarrow> blank q"
  by (simp add: blank_def trim_blank_iff list_all_iff)

text \<open>
  C7. Confirming the guide stores the entries whose trimmed text is not empty, that is,
  those with a character that is not white space, as they are and in the order they had,
  and moves to the mode selection. Confirming \<open>["q1", "", "  ", "q2"]\<close> stores
  \<open>["q1", "q2"]\<close>.
\<close>

theorem confirm_strips_blank_entries:
  "discussionGuide (GuideReview_onConfirm questions st) = filter (\<lambda>q. trim q \<noteq> []) questions
   \<and> discussionGuide (GuideReview_onConfirm questions st) = filter (\<lambda>q. \<not> blank q) questions
   \<and> subseq (discussionGuide (GuideReview_onConfirm questions st)) questions
   \<and> step (GuideReview_onConfirm questions st) = MODE_SELECTION
   \<and> discussionGuide (GuideReview_onConfirm [ascii ''q1'', [], ascii ''  '', ascii ''q2''] st)
       = [ascii ''q1'', ascii ''q2'']"
proof -
  have a: "discussionGuide (GuideReview_onConfirm qs st) = filter (\<lambda>q. \<not> blank q) qs" for qs
    by (simp add: GuideReview_onConfirm_def handleConfirmGuide_def trim_empty_iff_blank)
  have b: "filter (\<lambda>q. \<not> blank q) [ascii ''q1'', [], ascii ''  '', ascii ''q2'']
             = [ascii ''q1'', ascii ''q2'']"
    by (simp add: blank_def ascii_def isWhiteSpace_def)
  have c: "discussionGuide (GuideReview_onConfirm [ascii ''q1'', [], ascii ''  '', ascii ''q2''] st)
             = [ascii ''q1'', ascii ''q2'']"
    unfolding a by (rule b)
  have d: "step (GuideReview_onConfirm questions st) = MODE_SELECTION"
    by (simp add: GuideReview_onConfirm_def handleConfirmGuide_def)
  have e: "subseq (discussionGuide (GuideReview_onConfirm questions st)) questions"
    unfolding a by simp
  have f: "discussionGuide (GuideReview_onConfirm questions st)
             = filter (\<lambda>q. trim q \<noteq> []) questions"
    by (simp add: GuideReview_onConfirm_def handleConfirmGuide_def)
  from f a[of questions] c d e show ?thesis
    by (intro conjI)
qed


section \<open>Persona generation\<close>

lemma profile_backend_run:
  "runWithRetry profile_backend retries delay s
     = (Inr \<lparr>response_text = Some example_profile_text, groundingChunks = None,
             inlineData = None\<rparr>, [], Suc s)"
  by (simp add: runWithRetry_resolved profile_backend_def)

lemma example_profile_generated:
  "fst (generatePersonaProfile example_parse (\<lambda>t. None) example_heading profile_backend
          always500 0)
     = Inr (\<lparr>rawMarkdown = ascii ''# Ann'', name = ascii ''Ann'', summary_p = ascii ''# Ann...'',
             imageUrl = None, scores = Some example_scores\<rparr>, [])"
proof -
  have n: "example_profile_text \<noteq> []"
    by (simp add: example_profile_text_def ascii_def)
  have a: "json_string_of (\<lambda>t. None)
             \<lparr>response_text = Some example_profile_text, groundingChunks = None,
              inlineData = None\<rparr> = example_profile_text"
    by (simp add: json_string_of_def or_else_def n)
  have k: "ascii ''scores'' \<noteq> ascii ''markdownProfile''"
    by (simp add: ascii_def)
  have t: "trim (ascii ''Ann'') = ascii ''Ann''"
    by (simp add: trim_def ascii_def isWhiteSpace_def)
  have m: "ascii ''# Ann'' \<noteq> []"
    by (simp add: ascii_def)
  have tr: "truthy example_scores"
    by (simp add: example_scores_def)
  show ?thesis
    by (simp add: generatePersonaProfile_def profile_backend_run a example_parse_def k
          json_or_def m example_heading_def t List.map_filter_simps always500_run tr)
       (simp add: ascii_def)
qed

lemma default_scores_in_range: "scores_in_range default_scores"
  by (simp add: scores_in_range_def score_in_range_def default_scores_def ascii_def)

text \<open>
  Against C8 as stated. The backend answers with a JSON text whose demographics score is
  7. The profile that \<open>generatePersonaProfile\<close> returns carries that 7: a score outside
  0 to 5.
\<close>

theorem scores_not_clamped:
  "fst (generatePersonaProfile example_parse (\<lambda>t. None) example_heading profile_backend
          always500 0)
     = Inr (\<lparr>rawMarkdown = ascii ''# Ann'', name = ascii ''Ann'', summary_p = ascii ''# Ann...'',
             imageUrl = None, scores = Some example_scores\<rparr>, [])
   \<and> get_prop example_scores (ascii ''demographics'') = Inr (Some (JNum 7))
   \<and> \<not> scores_in_range example_scores"
proof -
  have d: "get_prop example_scores (ascii ''demographics'') = Inr (Some (JNum 7))"
    by (simp add: example_scores_def ascii_def)
  have "\<not> score_in_range example_scores ''demographics''"
    by (simp add: score_in_range_def d)
  then have "\<not> scores_in_range example_scores"
    by (simp add: scores_in_range_def)
  with example_profile_generated d show ?thesis
    by simp
qed

text \<open>
  C8, amended. The scores of a generated profile are the \<open>scores\<close> value of the JSON the
  backend's text parses to, as it is, whenever that value is there and truthy; nothing
  checks or clamps it. They are the default, 3 on each of the four dimensions and so
  integers from 0 to 5, when the text does not parse or the parsed value has no truthy
  \<open>scores\<close>.
\<close>

theorem scores_pass_through:
  assumes "fst (generatePersonaProfile JSON_parse match_fence match_heading text_call
                  image_call s) = Inr (prof, srcs)"
  shows "\<exists>response.
           fst (runWithRetry text_call 5 5000 s) = Inr response
         \<and> (case JSON_parse (json_string_of match_fence response) of
              None \<Rightarrow> scores prof = Some default_scores
            | Some result \<Rightarrow>
                (\<exists>sc. get_prop result (ascii ''scores'') = Inr sc
                     \<and> scores prof = Some (json_or sc default_scores)))
         \<and> scores_in_range default_scores"
proof -
  obtain r waits s1 where run: "runWithRetry text_call 5 5000 s = (r, waits, s1)"
    by (cases "runWithRetry text_call 5 5000 s") auto
  show ?thesis
  proof (cases r)
    case (Inl e)
    with run assms show ?thesis
      by (simp add: generatePersonaProfile_def)
  next
    case (Inr response)
    have dt: "json_or (Some default_scores) default_scores = default_scores"
      by (simp add: json_or_def)
    have k: "ascii ''scores'' \<noteq> ascii ''markdownProfile''"
      by (simp add: ascii_def)
    obtain img waits2 s2 where irun: "runWithRetry image_call 2 5000 s1 = (img, waits2, s2)"
      by (cases "runWithRetry image_call 2 5000 s1") auto
    from run Inr irun assms show ?thesis
      by (auto simp: generatePersonaProfile_def Let_def k dt default_scores_in_range
          split: option.splits sum.splits json.splits)
  qed
qed

theorem scores_pass_through_witness:
  "fst (generatePersonaProfile example_parse (\<lambda>t. None) example_heading profile_backend
          always500 0)
     = Inr (\<lparr>rawMarkdown = ascii ''# Ann'', name = ascii ''Ann'', summary_p = ascii ''# Ann...'',
             imageUrl = None, scores = Some example_scores\<rparr>, [])
   \<and> (\<exists>response.
         fst (runWithRetry profile_backend 5 5000 0) = Inr response
       \<and> (case example_parse (json_string_of (\<lambda>t. None) response) of
            None \<Rightarrow>
              scores \<lparr>rawMarkdown = ascii ''# Ann'', name = ascii ''Ann'',
                      summary_p = ascii ''# Ann...'', imageUrl = None,
                      scores = Some example_scores\<rparr> = Some default_scores
          | Some result \<Rightarrow>
              (\<exists>sc. get_prop result (ascii ''scores'') = Inr sc
                   \<and> scores \<lparr>rawMarkdown = ascii ''# Ann'', name = ascii ''Ann'',
                              summary_p = ascii ''# Ann...'', imageUrl = None,
                              scores = Some example_scores\<rparr>
                       = Some (json_or sc default_scores)))
       \<and> scores_in_range default_scores)"
  using scores_pass_through[OF example_profile_generated] example_profile_generated
  by (intro conjI)


section \<open>The interview turn loop\<close>

lemmas cont_defs = startConversation_replied_def runAiModeratorLoop_paced_def
  runAiModeratorLoop_decided_def runAiModeratorLoop_answered_def runAiModeratorLoop_catch_def
  runAiModeratorLoop_cooled_def handleManualSend_replied_def

subsection \<open>What the pieces do to the transcript and to the tasks\<close>

lemma runAiModeratorLoop_keeps:
  "runAiModeratorLoop st = (st', ts) \<Longrightarrow>
   messages st' = messages st \<and> isTyping st' = isTyping st
   \<and> hasStartedRef st' = hasStartedRef st \<and> OpeningReply \<notin> set ts
   \<and> (messages st = [] \<or> mode st = MANUAL \<longrightarrow> ts = [])"
  by (auto simp: runAiModeratorLoop_def split: if_splits)

lemma runAiModeratorLoop_manual: "mode st = MANUAL \<Longrightarrow> runAiModeratorLoop st = (st, [])"
  by (simp add: runAiModeratorLoop_def)

lemma rerender_keeps:
  "rerender before (st, spawned) = (st', ts) \<Longrightarrow>
   messages st' = messages st \<and> isTyping st' = isTyping st
   \<and> hasStartedRef st' = hasStartedRef st
   \<and> (OpeningReply \<notin> set spawned \<longrightarrow> OpeningReply \<notin> set ts)
   \<and> (messages st = [] \<or> mode st = MANUAL \<longrightarrow> ts = spawned)"
  by (auto simp: rerender_def split: if_splits prod.splits dest!: runAiModeratorLoop_keeps)

lemma rerender_same: "rerender st (st, ts) = (st, ts)"
  by (simp add: rerender_def)

lemma resume_no_opening:
  "resume t reply now st = (st', spawned) \<Longrightarrow>
   OpeningReply \<notin> set spawned \<and> hasStartedRef st' = hasStartedRef st"
  by (cases t) (auto simp: cont_defs split: sum.splits if_splits)

lemma resume_prefix:
  "t \<noteq> OpeningReply \<Longrightarrow> prefix (messages st) (messages (fst (resume t reply now st)))"
  by (cases t) (auto simp: cont_defs split: sum.splits if_splits)

text \<open>A chat turn that fails in manual mode appends the placeholder.\<close>

lemma handleManualSend_failed:
  "messages (fst (handleManualSend_replied (Inl e) now st))
     = messages st @ [\<lparr>role = Model, text = network_placeholder, timestamp = now,
                       isAiInterviewer = None\<rparr>]"
  by (simp add: handleManualSend_replied_def)

lemma handleManualSend_prefix:
  "prefix (messages st) (messages (fst (handleManualSend now st)))"
  by (auto simp: handleManualSend_def Let_def)

lemma handleManualSend_typing: "isTyping st \<Longrightarrow> handleManualSend now st = (st, [])"
  by (simp add: handleManualSend_def)

lemma handleManualSend_no_opening:
  "handleManualSend now st = (st', spawned) \<Longrightarrow>
   OpeningReply \<notin> set spawned \<and> hasStartedRef st' = hasStartedRef st"
  by (auto simp: handleManualSend_def Let_def split: if_splits)

text \<open>Once the ref is set, the greeting effect does nothing.\<close>

lemma initialGreeting_started: "hasStartedRef st \<Longrightarrow> initialGreeting st = (st, [])"
  by (simp add: initialGreeting_def)

text \<open>A view that is mounted starts from an empty list of messages.\<close>

lemma mount_starts_empty: "messages (fst (mount m g p)) = []"
  by (simp add: mount_def initialGreeting_def startConversation_def runAiModeratorLoop_def)

lemma handleManualSend_silent:
  "handleManualSend now st = (st1, sp1) \<Longrightarrow> messages st1 = messages st \<Longrightarrow>
   st1 = st \<and> sp1 = []"
  by (auto simp: handleManualSend_def Let_def split: if_splits)

lemma mount_eq:
  "mount m g p =
     (\<lparr>messages = [], input = [], isTyping = True, aiModeratorStatus = Idle, retryTrigger = 0,
       hasStartedRef = True, mode = m, guide = g, profile = p\<rparr>, [OpeningReply])"
  by (simp add: mount_def initialGreeting_def startConversation_def runAiModeratorLoop_def)


subsection \<open>The opening turn finds the transcript empty\<close>

lemma opening_inv_step:
  assumes "opening_inv c" and "chat_step c c'"
  shows "opening_inv c'"
  using assms(2)
proof (cases rule: chat_step.cases)
  case (task_over t ts st reply now st' spawned)
  obtain st1 sp1 where r: "resume t reply now st = (st1, sp1)"
    by (cases "resume t reply now st")
  from resume_no_opening[OF r] rerender_keeps[of st st1 sp1 st' spawned] task_over(4) r
  have no: "OpeningReply \<notin> set spawned" and h: "hasStartedRef st' = hasStartedRef st"
    by simp_all
  show ?thesis
  proof (cases "OpeningReply \<in> set ts")
    case True
    with assms(1) task_over(1) have only: "ts = [OpeningReply]"
      by (simp add: opening_inv_def)
    with task_over(3) have "t = OpeningReply"
      by simp
    with only no h assms(1) task_over(1,2) show ?thesis
      by (simp add: opening_inv_def)
  next
    case False
    then have "OpeningReply \<notin> set (remove1 t ts)"
      by (metis notin_set_remove1)
    with no h assms(1) task_over(1,2) show ?thesis
      by (simp add: opening_inv_def)
  qed
next
  case (typed st ts v)
  with assms(1) show ?thesis
    by (simp add: opening_inv_def)
next
  case (submitted st now st' spawned ts)
  obtain st1 sp1 where r: "handleManualSend now st = (st1, sp1)"
    by (cases "handleManualSend now st")
  from handleManualSend_no_opening[OF r] rerender_keeps[of st st1 sp1 st' spawned]
    submitted(3) r
  have no: "OpeningReply \<notin> set spawned" and h: "hasStartedRef st' = hasStartedRef st"
    by simp_all
  show ?thesis
  proof (cases "OpeningReply \<in> set ts")
    case True
    with assms(1) submitted(1)
    have i: "ts = [OpeningReply]" "messages st = []" "isTyping st"
      by (simp_all add: opening_inv_def)
    with submitted(3) have "st' = st" "spawned = []"
      by (simp_all add: handleManualSend_typing rerender_same)
    with i assms(1) submitted(1,2) show ?thesis
      by (simp add: opening_inv_def)
  next
    case False
    with no h assms(1) submitted(1,2) show ?thesis
      by (simp add: opening_inv_def)
  qed
next
  case (taken_over st st' spawned ts)
  from rerender_keeps[of st "st\<lparr>mode := MANUAL\<rparr>" "[]" st' spawned] taken_over(3)
  have k: "messages st' = messages st" "isTyping st' = isTyping st" "spawned = []"
    "hasStartedRef st' = hasStartedRef st"
    by simp_all
  with assms(1) taken_over(1,2) show ?thesis
    by (simp add: opening_inv_def)
next
  case (greeted_again st st' spawned ts)
  from assms(1) greeted_again(1) have "hasStartedRef st"
    by (simp add: opening_inv_def)
  with greeted_again(3) have "st' = st" "spawned = []"
    by (simp_all add: initialGreeting_started rerender_same)
  with assms(1) greeted_again(1,2) show ?thesis
    by simp
qed

lemma opening_inv_reachable: "chat_reachable c \<Longrightarrow> opening_inv c"
proof (induction rule: chat_reachable.induct)
  case (mounted m g p)
  show ?case
    by (simp add: opening_inv_def mount_eq)
next
  case (stepped c c')
  then show ?case
    by (blast intro: opening_inv_step)
qed


subsection \<open>The transcript only grows\<close>

text \<open>
  C5. In every state an interview can be in, every step of the turn loop leaves a
  transcript that begins with the transcript before it: the reply to the opening prompt,
  each piece of an automated moderator turn, a manual send, the reply to it and the
  placeholder put in for a reply that failed. The opening turn sets the transcript to
  its one message, which is a growth because the transcript is empty as long as that
  reply is awaited; every other update appends to the transcript of the moment.
\<close>

theorem transcript_append_only:
  assumes "chat_reachable c" and "chat_step c c'"
  shows "prefix (messages (fst c)) (messages (fst c'))"
  using assms(2)
proof (cases rule: chat_step.cases)
  case (task_over t ts st reply now st' spawned)
  obtain st1 sp1 where r: "resume t reply now st = (st1, sp1)"
    by (cases "resume t reply now st")
  from rerender_keeps[of st st1 sp1 st' spawned] task_over(4) r
  have m: "messages st' = messages st1"
    by simp
  show ?thesis
  proof (cases "t = OpeningReply")
    case True
    with opening_inv_reachable[OF assms(1)] task_over(1,3) have "messages st = []"
      by (simp add: opening_inv_def)
    with task_over(1,2) show ?thesis
      by simp
  next
    case False
    from resume_prefix[OF False, of st reply now] r m task_over(1,2) show ?thesis
      by simp
  qed
next
  case (typed st ts v)
  then show ?thesis
    by simp
next
  case (submitted st now st' spawned ts)
  obtain st1 sp1 where r: "handleManualSend now st = (st1, sp1)"
    by (cases "handleManualSend now st")
  from rerender_keeps[of st st1 sp1 st' spawned] submitted(3) r
  have m: "messages st' = messages st1"
    by simp
  from handleManualSend_prefix[of st now] r m submitted(1,2) show ?thesis
    by simp
next
  case (taken_over st st' spawned ts)
  from rerender_keeps[of st "st\<lparr>mode := MANUAL\<rparr>" "[]" st' spawned] taken_over(3)
  have "messages st' = messages st"
    by simp
  with taken_over(1,2) show ?thesis
    by simp
next
  case (greeted_again st st' spawned ts)
  from opening_inv_reachable[OF assms(1)] greeted_again(1) have "hasStartedRef st"
    by (simp add: opening_inv_def)
  with greeted_again(3) have "st' = st"
    by (simp add: initialGreeting_started rerender_same)
  with greeted_again(1,2) show ?thesis
    by simp
qed

lemma example_question_nonempty: "example_question \<noteq> []"
  by (simp add: example_question_def ascii_def)

lemma step_opening:
  "chat_step (mount AUTO fallback_guide example_persona)
     (example_turn, [PacingDelay [greeting] fallback_guide example_persona])"
proof -
  have "rerender (fst (mount AUTO fallback_guide example_persona))
          (resume OpeningReply (Inr (Some hello)) 1
             (fst (mount AUTO fallback_guide example_persona)))
        = (example_turn, [PacingDelay [greeting] fallback_guide example_persona])"
    by (simp add: mount_eq startConversation_replied_def rerender_def deps_def
          runAiModeratorLoop_def example_turn_def greeting_def or_else_def hello_def)
  from chat_step.task_over[OF _ this, of "[OpeningReply]"] show ?thesis
    by (simp add: mount_eq)
qed

lemma step_pacing:
  "chat_step (example_turn, [PacingDelay [greeting] fallback_guide example_persona])
     (example_turn, [ModeratorCall [greeting] fallback_guide example_persona])"
proof -
  have "rerender example_turn
          (resume (PacingDelay [greeting] fallback_guide example_persona) (Inr None) 1
             example_turn)
        = (example_turn, [ModeratorCall [greeting] fallback_guide example_persona])"
    by (simp add: runAiModeratorLoop_paced_def rerender_def)
  from chat_step.task_over[OF _ this,
      of "[PacingDelay [greeting] fallback_guide example_persona]"]
  show ?thesis
    by simp
qed

lemma step_decided:
  "chat_step (example_turn, [ModeratorCall [greeting] fallback_guide example_persona])
     (example_asked, [PersonaReply example_question])"
proof -
  have "rerender example_turn
          (resume (ModeratorCall [greeting] fallback_guide example_persona)
             (Inr (Some example_question)) 2 example_turn)
        = (example_asked, [PersonaReply example_question])"
    by (simp add: runAiModeratorLoop_decided_def rerender_def deps_def runAiModeratorLoop_def
          example_question_nonempty example_asked_def example_turn_def)
  from chat_step.task_over[OF _ this,
      of "[ModeratorCall [greeting] fallback_guide example_persona]"]
  show ?thesis
    by simp
qed

lemma example_turn_reachable:
  "chat_reachable (example_turn, [ModeratorCall [greeting] fallback_guide example_persona])"
  by (blast intro: chat_reachable.intros step_opening step_pacing)

theorem transcript_append_only_witness:
  "chat_reachable (example_turn, [ModeratorCall [greeting] fallback_guide example_persona])
   \<and> chat_step (example_turn, [ModeratorCall [greeting] fallback_guide example_persona])
        (example_asked, [PersonaReply example_question])
   \<and> prefix (messages example_turn) (messages example_asked)
   \<and> messages example_turn = [greeting]
   \<and> messages example_asked
       = [greeting, \<lparr>role = User, text = example_question, timestamp = 2,
                      isAiInterviewer = Some True\<rparr>]"
proof -
  from transcript_append_only[OF example_turn_reachable step_decided]
  have "prefix (messages example_turn) (messages example_asked)"
    by simp
  with example_turn_reachable step_decided show ?thesis
    by (simp add: example_turn_def example_asked_def)
qed


subsection \<open>A moderator call that fails\<close>

text \<open>With nothing awaited, steps that leave the transcript alone start nothing.\<close>

lemma silent_step_no_task:
  assumes "silent_step c c'" and "snd c = []" and "hasStartedRef (fst c)"
  shows "snd c' = [] \<and> hasStartedRef (fst c')"
proof -
  from assms(1) have s: "chat_step c c'" and m: "messages (fst c') = messages (fst c)"
    by (simp_all add: silent_step_def)
  from s show ?thesis
  proof (cases rule: chat_step.cases)
    case (task_over t ts st reply now st' spawned)
    with assms(2) show ?thesis
      by simp
  next
    case (typed st ts v)
    with assms(2,3) show ?thesis
      by simp
  next
    case (submitted st now st' spawned ts)
    obtain st1 sp1 where r: "handleManualSend now st = (st1, sp1)"
      by (cases "handleManualSend now st")
    from rerender_keeps[of st st1 sp1 st' spawned] submitted(3) r
    have "messages st' = messages st1"
      by simp
    with m submitted(1,2) have "messages st1 = messages st"
      by simp
    from handleManualSend_silent[OF r this] r submitted(3) have "spawned = []" "st' = st"
      by (simp_all add: rerender_same)
    with assms(2,3) submitted(1,2) show ?thesis
      by simp
  next
    case (taken_over st st' spawned ts)
    from rerender_keeps[of st "st\<lparr>mode := MANUAL\<rparr>" "[]" st' spawned] taken_over(3)
    have "spawned = []" "hasStartedRef st' = hasStartedRef st"
      by simp_all
    with assms(2,3) taken_over(1,2) show ?thesis
      by simp
  next
    case (greeted_again st st' spawned ts)
    with assms(3) have "spawned = []" "st' = st"
      by (simp_all add: initialGreeting_started rerender_same)
    with assms(2,3) greeted_again(1,2) show ?thesis
      by simp
  qed
qed

lemma silent_steps_no_task:
  "silent_step\<^sup>*\<^sup>* c c' \<Longrightarrow> snd c = [] \<Longrightarrow> hasStartedRef (fst c) \<Longrightarrow>
   snd c' = [] \<and> hasStartedRef (fst c')"
  by (induction rule: rtranclp_induct) (auto dest: silent_step_no_task)

text \<open>
  The moderator's turn is running in the mounted view in Auto mode: the last message
  is the persona's and no reply is awaited. The call for the moderator's decision fails
  with \<open>e\<close>.

  When the loop takes \<open>e\<close> for a rate limit (its status is 429, or its message
  contains \<open>429\<close>), nothing in the state changes and a 5000 ms timer is all that is
  awaited; when it is over, \<open>retryTrigger\<close> goes up by one, which runs the loop again:
  it waits its 3000 ms and calls the moderator with the same transcript, guide and
  persona.

  When it does not, only the moderator status changes, to idle: the transcript and the
  mode are as they were, nothing is awaited, the loop does not run again, and as long as
  the steps that follow leave the transcript alone nothing is ever awaited, so no
  automated turn begins.
\<close>

lemma moderator_failure_handling:
  assumes "mode st = AUTO" and "messages st \<noteq> []" and "\<not> isTyping st"
    and "role (last (messages st)) = Model" and "hasStartedRef st"
  shows "(is429 e \<longrightarrow>
            rerender st (runAiModeratorLoop_decided (Inl e) now st) = (st, [Cooldown])
          \<and> timer_ms Cooldown = Some 5000
          \<and> rerender st (runAiModeratorLoop_cooled st)
              = (st\<lparr>retryTrigger := retryTrigger st + 1, aiModeratorStatus := Thinking\<rparr>,
                 [PacingDelay (messages st) (guide st) (profile st)])
          \<and> snd (runAiModeratorLoop_paced (messages st) (guide st) (profile st) st')
              = [ModeratorCall (messages st) (guide st) (profile st)])
       \<and> (\<not> is429 e \<longrightarrow>
            rerender st (runAiModeratorLoop_decided (Inl e) now st)
              = (st\<lparr>aiModeratorStatus := Idle\<rparr>, [])
          \<and> (\<forall>c'. silent_step\<^sup>*\<^sup>* (st\<lparr>aiModeratorStatus := Idle\<rparr>, []) c'
                  \<longrightarrow> snd c' = []))"
proof (intro conjI impI allI)
  assume "is429 e"
  then show "rerender st (runAiModeratorLoop_decided (Inl e) now st) = (st, [Cooldown])"
    by (simp add: runAiModeratorLoop_decided_def runAiModeratorLoop_catch_def rerender_def)
next
  show "timer_ms Cooldown = Some 5000"
    by simp
next
  show "rerender st (runAiModeratorLoop_cooled st)
          = (st\<lparr>retryTrigger := retryTrigger st + 1, aiModeratorStatus := Thinking\<rparr>,
             [PacingDelay (messages st) (guide st) (profile st)])"
    using assms
    by (simp add: runAiModeratorLoop_cooled_def rerender_def deps_def runAiModeratorLoop_def)
next
  show "snd (runAiModeratorLoop_paced (messages st) (guide st) (profile st) st')
          = [ModeratorCall (messages st) (guide st) (profile st)]"
    by (simp add: runAiModeratorLoop_paced_def)
next
  assume "\<not> is429 e"
  then show "rerender st (runAiModeratorLoop_decided (Inl e) now st)
               = (st\<lparr>aiModeratorStatus := Idle\<rparr>, [])"
    by (simp add: runAiModeratorLoop_decided_def runAiModeratorLoop_catch_def rerender_def
          deps_def)
next
  fix c' assume "silent_step\<^sup>*\<^sup>* (st\<lparr>aiModeratorStatus := Idle\<rparr>, []) c'"
  from silent_steps_no_task[OF this] assms(5) show "snd c' = []"
    by simp
qed

lemma example_turn_facts:
  "mode example_turn = AUTO" "messages example_turn \<noteq> []" "\<not> isTyping example_turn"
  "role (last (messages example_turn)) = Model" "hasStartedRef example_turn"
  by (simp_all add: example_turn_def greeting_def)

lemma is429_examples: "is429 error429" "\<not> is429 error500"
  by (simp_all add: is429_def error429_def error500_def ascii_def)

lemma moderator_failure_handling_example:
  "mode example_turn = AUTO \<and> messages example_turn \<noteq> [] \<and> \<not> isTyping example_turn
   \<and> role (last (messages example_turn)) = Model \<and> hasStartedRef example_turn
   \<and> is429 error429
   \<and> rerender example_turn (runAiModeratorLoop_decided (Inl error429) 2 example_turn)
       = (example_turn, [Cooldown])
   \<and> rerender example_turn (runAiModeratorLoop_cooled example_turn)
       = (example_turn\<lparr>retryTrigger := retryTrigger example_turn + 1,
                       aiModeratorStatus := Thinking\<rparr>,
          [PacingDelay (messages example_turn) (guide example_turn) (profile example_turn)])
   \<and> \<not> is429 error500
   \<and> rerender example_turn (runAiModeratorLoop_decided (Inl error500) 2 example_turn)
       = (example_turn\<lparr>aiModeratorStatus := Idle\<rparr>, [])"
  using moderator_failure_handling[OF example_turn_facts, of error429 2]
        moderator_failure_handling[OF example_turn_facts, of error500 2]
        example_turn_facts is429_examples
  by simp


text \<open>
  The same \<open>catch\<close> also receives a failure of the reply to the moderator's question.
  By then the question is in the transcript and \<open>isTyping\<close> is set, and the \<open>catch\<close>
  does not clear it: the loop that runs after the cooldown stops at its \<open>isTyping\<close>
  test, and so does a manual send.
\<close>

lemma reply_failure_keeps_typing:
  assumes "isTyping st"
  shows "isTyping (fst (runAiModeratorLoop_answered (Inl e) now st))"
    and "rerender st (runAiModeratorLoop_cooled st)
           = (st\<lparr>retryTrigger := retryTrigger st + 1\<rparr>, [])"
    and "handleManualSend now st = (st, [])"
  using assms
  by (simp_all add: runAiModeratorLoop_answered_def runAiModeratorLoop_catch_def
        runAiModeratorLoop_cooled_def rerender_def runAiModeratorLoop_def
        handleManualSend_def)


lemma example_asked_reachable:
  "chat_reachable (example_asked, [PersonaReply example_question])"
  by (blast intro: chat_reachable.intros example_turn_reachable step_decided)

text \<open>
  C2. Every failure of a moderator turn in Auto mode is to be retried after the cooldown
  when it is a rate limit. The interview is in the state, reached from the mount, where
  the moderator has asked its question and the persona's reply is awaited; the mode is
  Auto. The reply fails with a 429. The 5000 ms are waited and \<open>retryTrigger\<close> goes up,
  but the loop that runs then is left with nothing awaited: nothing is retried.
  \<open>isTyping\<close> stays set, and a manual send of a message returns at once as well.
\<close>

theorem reply_rate_limit_not_retried:
  "chat_reachable (example_asked, [PersonaReply example_question])
   \<and> mode example_asked = AUTO
   \<and> is429 error429
   \<and> rerender example_asked
        (resume (PersonaReply example_question) (Inl error429) 3 example_asked)
       = (example_asked, [Cooldown])
   \<and> rerender example_asked (resume Cooldown (Inr None) 3 example_asked)
       = (example_asked\<lparr>retryTrigger := 1\<rparr>, [])
   \<and> isTyping (example_asked\<lparr>retryTrigger := 1\<rparr>)
   \<and> handleManualSend 4 (example_asked\<lparr>retryTrigger := 1, input := ascii ''And then?''\<rparr>)
       = (example_asked\<lparr>retryTrigger := 1, input := ascii ''And then?''\<rparr>, [])"
proof -
  have t: "isTyping example_asked" "mode example_asked = AUTO"
    "retryTrigger example_asked = 0"
    by (simp_all add: example_asked_def example_turn_def)
  have a: "rerender example_asked
             (resume (PersonaReply example_question) (Inl error429) 3 example_asked)
           = (example_asked, [Cooldown])"
    by (simp add: runAiModeratorLoop_answered_def runAiModeratorLoop_catch_def is429_examples
          rerender_def)
  have b: "rerender example_asked (resume Cooldown (Inr None) 3 example_asked)
           = (example_asked\<lparr>retryTrigger := 1\<rparr>, [])"
    using reply_failure_keeps_typing(2)[OF t(1)] t(3) by simp
  have c: "handleManualSend 4
             (example_asked\<lparr>retryTrigger := 1, input := ascii ''And then?''\<rparr>)
           = (example_asked\<lparr>retryTrigger := 1, input := ascii ''And then?''\<rparr>, [])"
    using t(1) by (simp add: handleManualSend_def)
  from example_asked_reachable t(2) is429_examples(1) a b t(1) c show ?thesis
    by simp
qed


subsection \<open>A moderator that has nothing to say\<close>

lemma sublist_drop_head:
  assumes "sublist ps (x # xs)" and "x \<notin> set ps" and "ps \<noteq> []"
  shows "sublist ps xs"
proof -
  from assms(1) have "prefix ps (x # xs) \<or> sublist ps xs"
    by (simp add: sublist_Cons_right)
  moreover have "\<not> prefix ps (x # xs)"
  proof
    assume "prefix ps (x # xs)"
    with assms(3) have "hd ps = x"
      by (cases ps) auto
    with assms(2,3) show False
      by (cases ps) auto
  qed
  ultimately show ?thesis
    by blast
qed

lemma sublist_dropWhile:
  "sublist ps xs \<Longrightarrow> \<forall>c \<in> set ps. \<not> P c \<Longrightarrow> ps \<noteq> [] \<Longrightarrow> sublist ps (dropWhile P xs)"
proof (induction xs)
  case Nil
  then show ?case
    by simp
next
  case (Cons x xs)
  show ?case
  proof (cases "P x")
    case True
    with Cons.prems have "x \<notin> set ps"
      by auto
    with Cons.prems have "sublist ps xs"
      by (auto intro: sublist_drop_head)
    with Cons True show ?thesis
      by simp
  next
    case False
    with Cons.prems show ?thesis
      by simp
  qed
qed

lemma sublist_trim:
  assumes "sublist ps t" and "\<forall>c \<in> set ps. \<not> isWhiteSpace c" and "ps \<noteq> []"
  shows "sublist ps (trim t)"
proof -
  have "sublist ps (dropWhile isWhiteSpace t)"
    using assms by (rule sublist_dropWhile)
  then have "sublist (rev ps) (rev (dropWhile isWhiteSpace t))"
    by (simp add: sublist_rev)
  then have "sublist (rev ps) (dropWhile isWhiteSpace (rev (dropWhile isWhiteSpace t)))"
    using assms(2,3) by (intro sublist_dropWhile) auto
  then have "sublist (rev (rev ps))
               (rev (dropWhile isWhiteSpace (rev (dropWhile isWhiteSpace t))))"
    by (simp only: sublist_rev)
  then show ?thesis
    by (simp add: trim_def)
qed

lemma sentinel_survives_trim:
  assumes "js_includes t (ascii ''[INTERVIEW_COMPLETE]'')"
  shows "js_includes (trim t) INTERVIEW_COMPLETE"
proof -
  have "sublist INTERVIEW_COMPLETE (ascii ''[INTERVIEW_COMPLETE]'')"
    unfolding js_includes_sublist[symmetric]
    by (simp add: INTERVIEW_COMPLETE_def ascii_def)
  moreover have "sublist (ascii ''[INTERVIEW_COMPLETE]'') t"
    using assms by (simp add: js_includes_sublist)
  ultimately have "sublist INTERVIEW_COMPLETE t"
    by (rule sublist_order.order.trans)
  moreover have "\<forall>c \<in> set INTERVIEW_COMPLETE. \<not> isWhiteSpace c"
    by (simp add: INTERVIEW_COMPLETE_def ascii_def isWhiteSpace_def)
  moreover have "INTERVIEW_COMPLETE \<noteq> []"
    by (simp add: INTERVIEW_COMPLETE_def ascii_def)
  ultimately show ?thesis
    by (simp add: js_includes_sublist sublist_trim)
qed

text \<open>
  C10. The backend answers the moderator call, and the text of the answer is absent, or
  blank (empty or white space only), or contains the sentinel \<open>[INTERVIEW_COMPLETE]\<close>. In
  each of these cases alike \<open>getAIInterviewerNextQuestion\<close> returns \<open>null\<close>, on which
  the loop sets the moderator status to done and the mode to manual, appends nothing and
  starts nothing.
\<close>

theorem blank_reply_completes:
  assumes "fst (runWithRetry operation 5 4000 s) = Inr response"
    and "response_text response = None
         \<or> (\<exists>t. response_text response = Some t
                \<and> (blank t \<or> js_includes t (ascii ''[INTERVIEW_COMPLETE]'')))"
  shows "fst (getAIInterviewerNextQuestion operation s) = Inr None
       \<and> rerender st (runAiModeratorLoop_decided
                         (fst (getAIInterviewerNextQuestion operation s)) now st)
           = (st\<lparr>aiModeratorStatus := Done, mode := MANUAL\<rparr>, [])"
proof -
  obtain waits s' where run: "runWithRetry operation 5 4000 s = (Inr response, waits, s')"
    using assms(1) by (cases "runWithRetry operation 5 4000 s") auto
  have a: "fst (getAIInterviewerNextQuestion operation s) = Inr None"
    using assms(2) run
    by (auto simp: getAIInterviewerNextQuestion_def Let_def trim_empty_iff_blank
        sentinel_survives_trim)
  have b: "runAiModeratorLoop_decided (Inr None) now st
             = (st\<lparr>aiModeratorStatus := Done, mode := MANUAL\<rparr>, [])"
    by (simp add: runAiModeratorLoop_decided_def)
  have c: "rerender st (st\<lparr>aiModeratorStatus := Done, mode := MANUAL\<rparr>, [])
             = (st\<lparr>aiModeratorStatus := Done, mode := MANUAL\<rparr>, [])"
    by (simp add: rerender_def runAiModeratorLoop_manual)
  from a b c show ?thesis
    by simp
qed

lemma blank_backend_run:
  "runWithRetry blank_backend retries delay s
     = (Inr \<lparr>response_text = Some (ascii ''  ''), groundingChunks = None, inlineData = None\<rparr>,
        [], Suc s)"
  by (simp add: runWithRetry_resolved blank_backend_def)

theorem blank_reply_completes_witness:
  "fst (runWithRetry blank_backend 5 4000 0)
     = Inr \<lparr>response_text = Some (ascii ''  ''), groundingChunks = None, inlineData = None\<rparr>
   \<and> blank (ascii ''  '')
   \<and> fst (getAIInterviewerNextQuestion blank_backend 0) = Inr None
   \<and> rerender example_turn
        (runAiModeratorLoop_decided (fst (getAIInterviewerNextQuestion blank_backend 0)) 2
           example_turn)
       = (example_turn\<lparr>aiModeratorStatus := Done, mode := MANUAL\<rparr>, [])"
proof -
  have a: "fst (runWithRetry blank_backend 5 4000 0)
     = Inr \<lparr>response_text = Some (ascii ''  ''), groundingChunks = None, inlineData = None\<rparr>"
    by (simp add: blank_backend_run)
  have b: "blank (ascii ''  '')"
    by (simp add: blank_def ascii_def isWhiteSpace_def)
  have h: "response_text \<lparr>response_text = Some (ascii ''  ''), groundingChunks = None,
               inlineData = None\<rparr> = None
           \<or> (\<exists>t. response_text \<lparr>response_text = Some (ascii ''  ''), groundingChunks = None,
                      inlineData = None\<rparr> = Some t
                  \<and> (blank t \<or> js_includes t (ascii ''[INTERVIEW_COMPLETE]'')))"
    using b by simp
  note t = blank_reply_completes[OF a h, of example_turn 2]
  from a b t[THEN conjunct1] t[THEN conjunct2] show ?thesis
    by (intro conjI)
qed


section \<open>Ending the interview\<close>

lemma fresh_view_off_stage: "step st \<noteq> INTERVIEW \<Longrightarrow> fresh_view st = None"
  by (simp add: fresh_view_def)




end
